theory Spec2Isabelle
  imports Main
begin

section \<open>Values of the training framework\<close>

text \<open>
  The theory embeds \<^verbatim>\<open>efl/framework/model.py\<close>: the classes \<^verbatim>\<open>Model\<close> and
  \<^verbatim>\<open>FederalModel\<close>. Graph tensors and operations are symbolic terms, one constructor
  per graph node the source builds; Python exceptions are values of \<open>pyerr\<close>; every
  method takes the model and returns it updated, next to its result or the exception it
  raised. A leading underscore of a Python name is dropped (\<^verbatim>\<open>_minimize\<close> is
  \<open>minimize\<close>), since an Isabelle name starts with a letter.
\<close>

type_synonym task = "string option"

datatype mode = TRAIN | EVAL

datatype pyerr = ValueError string | TypeError string | RuntimeError string

text \<open>
  A tensor of the dataflow graph. \<open>Tensor\<close> is a node built outside this file (a variable,
  a label, an activation), \<open>RecvTensor\<close> the result of \<^verbatim>\<open>Communicator.recv(name, dtype)\<close>;
  the others are the nodes that the calls \<^verbatim>\<open>tf.reduce_mean\<close>, \<^verbatim>\<open>tf.reduce_sum\<close>,
  \<^verbatim>\<open>tf.zeros_like\<close>, \<^verbatim>\<open>tf.add\<close> and \<^verbatim>\<open>slice_op.slice_add\<close> create, and \<open>Gradient y x g\<close>
  stands for the gradient of \<open>y\<close> with respect to \<open>x\<close> under the upstream gradient \<open>g\<close>.
  Two tensors are the same object exactly when they are the same term.
\<close>

datatype tensor =
    Tensor string string
  | RecvTensor string string
  | ReduceMean tensor
  | ReduceSum tensor
  | ZerosLike tensor
  | TfAdd tensor tensor
  | SliceAdd tensor tensor
  | Gradient tensor tensor "tensor option"

fun dtype :: "tensor \<Rightarrow> string" where
  "dtype (Tensor n d) = d"
| "dtype (RecvTensor n d) = d"
| "dtype (ReduceMean t) = dtype t"
| "dtype (ReduceSum t) = dtype t"
| "dtype (ZerosLike t) = dtype t"
| "dtype (TfAdd a b) = dtype a"
| "dtype (SliceAdd a b) = dtype a"
| "dtype (Gradient y x g) = dtype x"

text \<open>
  An operation of the graph: the send of the communicator, the apply step of an
  optimizer (named) on its gradient and variable pairs, the increment of the global step
  with its control inputs, or an operation made by user code.
\<close>

datatype op =
    SendOp string tensor
  | ApplyGradients string "(tensor option \<times> tensor) list"
  | AssignAddGlobalStep int "op list"
  | UserOp string

text \<open>
  A value of the optimizer configuration \<^verbatim>\<open>opt_config\<close>: a string, a callable on a
  loss, or anything else (kept by its \<^verbatim>\<open>str()\<close> text).
\<close>

datatype cfgval = CStr string | CFun "tensor \<Rightarrow> tensor" | COther string

type_synonym config = "string \<rightharpoonup> cfgval"

definition DEFAULT_OPT_CONFIG :: config where
  "DEFAULT_OPT_CONFIG = [''REDUCE'' \<mapsto> CStr ''mean'', ''BACKEND_MODE'' \<mapsto> CStr ''noise'']"

text \<open>\<^verbatim>\<open>d.pop(key, default)\<close>: the value read and the dictionary without the key.\<close>

definition dict_pop :: "('k \<rightharpoonup> 'v) \<Rightarrow> 'k \<Rightarrow> 'v \<Rightarrow> 'v \<times> ('k \<rightharpoonup> 'v)" where
  "dict_pop d k dflt = (case d k of None \<Rightarrow> (dflt, d) | Some v \<Rightarrow> (v, d(k := None)))"

fun py_eq_str :: "cfgval \<Rightarrow> string \<Rightarrow> bool" where
  "py_eq_str (CStr s) t = (s = t)"
| "py_eq_str _ t = False"

fun callable :: "cfgval \<Rightarrow> bool" where
  "callable (CFun f) = True"
| "callable _ = False"

fun call :: "cfgval \<Rightarrow> tensor \<Rightarrow> tensor" where
  "call (CFun f) l = f l"
| "call _ l = l"

fun py_str :: "cfgval \<Rightarrow> string" where
  "py_str (CStr s) = s"
| "py_str (COther s) = s"
| "py_str (CFun f) = ''<function>''"

text \<open>
  An optimizer, by what the source asks of it: whether the parameter list of its
  \<^verbatim>\<open>compute_gradients\<close> has \<^verbatim>\<open>opt_config\<close>, the call
  \<^verbatim>\<open>compute_gradients(loss, var_list, grad_loss, opt_config)\<close> (the last argument
  \<open>None\<close> when it is not passed) and \<^verbatim>\<open>apply_gradients(grads_and_vars)\<close>. Both calls
  may raise.
\<close>

record optimizer =
  opt_name :: string
  takes_opt_config :: bool
  compute_gradients ::
    "tensor option \<Rightarrow> tensor list \<Rightarrow> tensor option \<Rightarrow> config option
       \<Rightarrow> pyerr + (tensor option \<times> tensor) list"
  apply_gradients :: "(tensor option \<times> tensor) list \<Rightarrow> pyerr + op"

text \<open>
  What an input function may return: a \<^verbatim>\<open>Sample\<close> or \<^verbatim>\<open>FederalSample\<close> with its
  operations to run before a step, \<^verbatim>\<open>None\<close>, or an object of another class (with its
  class name and its truth value). A sample object is true, as an object of a class
  without \<^verbatim>\<open>__bool__\<close> is.
\<close>

record sample =
  federal :: bool
  before_step_ops :: "op list"

datatype pyobj = SampleObj sample | NoneObj | OtherObj string bool



section \<open>The class Model\<close>

text \<open>
  The dictionaries of \<^verbatim>\<open>Model.__init__\<close>. Those the compilation iterates over keep
  their insertion order (a list of pairs); the others are maps. A user function is kept
  by its identity, a number. After the fields of the class come the pieces of ambient
  state its methods read and write: the task of the current task scope, the mapping
  object that \<^verbatim>\<open>kwargs.pop('opt_config', _DEFAULT_OPT_CONFIG)\<close> yields in each call of
  one compile (one shared object), and the warnings given to \<^verbatim>\<open>tf.logging.warn\<close>.
\<close>

type_synonym fn = nat

record model =
  inputs :: "(mode \<times> task) \<rightharpoonup> sample"
  input_fns :: "(task \<times> fn) list"
  losses :: "task \<rightharpoonup> tensor option"
  loss_fns :: "(task \<times> fn) list"
  train_ops :: "task \<rightharpoonup> op list"
  opt_fns :: "(task \<times> fn) list"
  eval_ops :: "task \<rightharpoonup> op list"
  eval_fns :: "(task \<times> fn) list"
  opt_to_vars :: "task \<rightharpoonup> (optimizer \<times> tensor list \<times> string) list"
  hooks :: "(mode \<times> task \<times> string) list"
  scope_task :: task
  opt_config :: config
  tf_log :: "string list"

definition has_key :: "('k \<times> 'v) list \<Rightarrow> 'k \<Rightarrow> bool" where
  "has_key d k = (map_of d k \<noteq> None)"

text \<open>\<^verbatim>\<open>d[k] = v\<close> on a dictionary in insertion order.\<close>

definition set_item :: "('k \<times> 'v) list \<Rightarrow> 'k \<Rightarrow> 'v \<Rightarrow> ('k \<times> 'v) list" where
  "set_item d k v =
     (if has_key d k then map (\<lambda>(k', v'). if k' = k then (k', v) else (k', v')) d
      else d @ [(k, v)])"

text \<open>\<^verbatim>\<open>task if task else task_scope.current_task_scope().task\<close>: \<^verbatim>\<open>None\<close> and the
  empty string are false.\<close>

definition resolve_task :: "task \<Rightarrow> 'z model_scheme \<Rightarrow> task" where
  "resolve_task task m =
     (case task of None \<Rightarrow> scope_task m
      | Some t \<Rightarrow> if t = [] then scope_task m else Some t)"

fun str_task :: "task \<Rightarrow> string" where
  "str_task None = ''None''"
| "str_task (Some t) = t"

fun str_mode :: "mode \<Rightarrow> string" where
  "str_mode TRAIN = ''TRAIN''"
| "str_mode EVAL = ''EVAL''"

definition tf_logging_warn :: "string \<Rightarrow> 'z model_scheme \<Rightarrow> 'z model_scheme" where
  "tf_logging_warn msg m = m\<lparr>tf_log := tf_log m @ [msg]\<rparr>"

definition add_train_op :: "op \<Rightarrow> task \<Rightarrow> 'z model_scheme \<Rightarrow> 'z model_scheme" where
  "add_train_op train_op task m =
     m\<lparr>train_ops := (train_ops m)
          (task \<mapsto> (case train_ops m task of None \<Rightarrow> [] | Some l \<Rightarrow> l) @ [train_op])\<rparr>"

definition add_eval_op :: "op \<Rightarrow> task \<Rightarrow> 'z model_scheme \<Rightarrow> 'z model_scheme" where
  "add_eval_op eval_op task m =
     m\<lparr>eval_ops := (eval_ops m)
          (task \<mapsto> (case eval_ops m task of None \<Rightarrow> [] | Some l \<Rightarrow> l) @ [eval_op])\<rparr>"

text \<open>
  The registrations \<^verbatim>\<open>input_fn\<close>, \<^verbatim>\<open>loss_fn\<close>, \<^verbatim>\<open>optimizer_fn\<close> and \<^verbatim>\<open>eval_fn\<close>. Each
  raises before it writes, so the model next to an exception is the model given.
\<close>

definition input_fn ::
  "fn \<Rightarrow> task \<Rightarrow> 'z model_scheme \<Rightarrow> (pyerr + unit) \<times> 'z model_scheme" where
  "input_fn f task m =
     (let task = resolve_task task m in
      if has_key (input_fns m) task
      then (Inl (ValueError (''input define twice for task:'' @ str_task task)), m)
      else (Inr (), m\<lparr>input_fns := set_item (input_fns m) task f\<rparr>))"

definition loss_fn ::
  "fn \<Rightarrow> task \<Rightarrow> 'z model_scheme \<Rightarrow> (pyerr + unit) \<times> 'z model_scheme" where
  "loss_fn f task m =
     (let task = resolve_task task m in
      if has_key (loss_fns m) task
      then (Inl (ValueError (''loss define twice for task:'' @ str_task task)), m)
      else (Inr (), m\<lparr>loss_fns := set_item (loss_fns m) task f\<rparr>))"

definition optimizer_fn ::
  "fn \<Rightarrow> task \<Rightarrow> 'z model_scheme \<Rightarrow> (pyerr + unit) \<times> 'z model_scheme" where
  "optimizer_fn f task m =
     (let task = resolve_task task m in
      if has_key (opt_fns m) task
      then (Inl (ValueError (''optimizer define twice for task:'' @ str_task task)), m)
      else (Inr (), m\<lparr>opt_fns := set_item (opt_fns m) task f\<rparr>))"

definition eval_fn ::
  "fn \<Rightarrow> task \<Rightarrow> 'z model_scheme \<Rightarrow> (pyerr + unit) \<times> 'z model_scheme" where
  "eval_fn f task m =
     (let task = resolve_task task m in
      if has_key (eval_fns m) task
      then (Inl (ValueError (''eval fn define twice for task:'' @ str_task task)), m)
      else (Inr (), m\<lparr>eval_fns := set_item (eval_fns m) task f\<rparr>))"

text \<open>\<^verbatim>\<open>Model._reduce_loss\<close>.\<close>

definition reduce_loss ::
  "tensor option \<Rightarrow> cfgval \<Rightarrow> 'z model_scheme \<Rightarrow> tensor option \<times> 'z model_scheme" where
  "reduce_loss loss reduce_func m =
     (case loss of
        None \<Rightarrow> (None, m)
      | Some l \<Rightarrow>
          if py_eq_str reduce_func ''mean'' then (Some (ReduceMean l), m)
          else if py_eq_str reduce_func ''sum'' then (Some (ReduceSum l), m)
          else if callable reduce_func then (Some (call reduce_func l), m)
          else (Some (ReduceMean l),
                tf_logging_warn
                  (''No such reduce function called '' @ [CHR 0x27] @ py_str reduce_func
                     @ [CHR 0x27] @ '', it will use mean by default.'') m))"

text \<open>
  \<^verbatim>\<open>Model._minimize\<close>. The reduction is read with \<^verbatim>\<open>opt_config.pop('REDUCE', 'mean')\<close>,
  which takes the key out of the shared mapping.
\<close>

definition minimize ::
  "task \<Rightarrow> tensor option \<Rightarrow> tensor list \<times> string \<Rightarrow> optimizer \<Rightarrow> 'z model_scheme
     \<Rightarrow> (pyerr + op option) \<times> 'z model_scheme" where
  "minimize task loss vars_to_compute opt m =
     (let (loss, m) =
            (if \<not> takes_opt_config opt
             then (let (r, c) = dict_pop (opt_config m) ''REDUCE'' (CStr ''mean'')
                   in reduce_loss loss r (m\<lparr>opt_config := c\<rparr>))
             else (loss, m));
          var_list = fst vars_to_compute;
          var_scope = snd vars_to_compute
      in case compute_gradients opt loss var_list None None of
           Inl e \<Rightarrow> (Inl e, m)
         | Inr grads_and_vars \<Rightarrow>
             (case apply_gradients opt grads_and_vars of
                Inl e \<Rightarrow> (Inl e, m)
              | Inr train_op \<Rightarrow> (Inr (Some train_op), m)))"

section \<open>The class FederalModel\<close>

text \<open>
  \<^verbatim>\<open>FederalModel\<close> adds two \<^verbatim>\<open>defaultdict(list)\<close> fields: a lookup of an absent task
  reads the empty list, so each is a total function. \<open>recv_grad_ops\<close> holds the pairs
  (name, received tensor) recorded by \<^verbatim>\<open>recv(..., require_grad=True)\<close>;
  \<open>require_grad_ops\<close> holds the pairs (sent tensor, gradient received for it) recorded by
  \<^verbatim>\<open>send(..., require_grad=True)\<close>.
\<close>

record fmodel = model +
  recv_grad_ops :: "task \<Rightarrow> (string \<times> tensor) list"
  require_grad_ops :: "task \<Rightarrow> (tensor \<times> tensor) list"

text \<open>
  The parts of the execution engine the federal code calls and this file does not
  hold: \<^verbatim>\<open>gradients_impl.gradients(ys, xs, grad_ys)\<close>, which may raise, and the test
  whether a received tensor originates in a variable scope.
\<close>

record engine =
  gradients ::
    "tensor option list \<Rightarrow> tensor list \<Rightarrow> tensor option list \<Rightarrow> pyerr + tensor option list"
  origin_scope :: "string \<Rightarrow> tensor \<Rightarrow> bool"

text \<open>
  Modelled from the spec: the class \<^verbatim>\<open>Communicator\<close> is not among the sources. Its
  \<^verbatim>\<open>send(name, value)\<close> gives the handle of the outgoing transmission and its
  \<^verbatim>\<open>recv(name, dtype)\<close> the received value.
\<close>

definition communicator_send :: "string \<Rightarrow> tensor \<Rightarrow> op" where
  "communicator_send name t = SendOp name t"

definition communicator_recv :: "string \<Rightarrow> string \<Rightarrow> tensor" where
  "communicator_recv name dt = RecvTensor name dt"

text \<open>
  Modelled from the spec: \<^verbatim>\<open>communicator_util.get_recv_grad_vars\<close> is not among the
  sources. It gives the records of received values of the task, filtered to the ones
  whose originating variable scope matches the scope of the binding.
\<close>

definition get_recv_grad_vars ::
  "engine \<Rightarrow> 'z fmodel_scheme \<Rightarrow> task \<Rightarrow> string \<Rightarrow> (string \<times> tensor) list" where
  "get_recv_grad_vars eng m task var_scope =
     filter (\<lambda>(name, v). origin_scope eng var_scope v) (recv_grad_ops m task)"

definition recv ::
  "string \<Rightarrow> string \<Rightarrow> bool \<Rightarrow> task \<Rightarrow> 'z fmodel_scheme \<Rightarrow> tensor \<times> 'z fmodel_scheme" where
  "recv name dt require_grad task m =
     (let task = resolve_task task m;
          recv_tensor = communicator_recv name dt
      in (recv_tensor,
          if require_grad
          then m\<lparr>recv_grad_ops :=
                   (recv_grad_ops m)(task := recv_grad_ops m task @ [(name, recv_tensor)])\<rparr>
          else m))"

definition send ::
  "string \<Rightarrow> tensor \<Rightarrow> bool \<Rightarrow> mode \<Rightarrow> task \<Rightarrow> 'z fmodel_scheme \<Rightarrow> op \<times> 'z fmodel_scheme" where
  "send name t require_grad md task m =
     (let task = resolve_task task m;
          send_op = communicator_send name t;
          m = (if md = TRAIN then add_train_op send_op task m else add_eval_op send_op task m)
      in if require_grad
         then (let (recv_grad, m) = recv (name @ ''_grad'') (dtype t) False None m
               in (send_op,
                   m\<lparr>require_grad_ops :=
                        (require_grad_ops m)(task := require_grad_ops m task @ [(t, recv_grad)])\<rparr>))
         else (send_op, m))"

subsection \<open>Python and TensorFlow operations used by the federal minimize\<close>

text \<open>
  Python's \<^verbatim>\<open>+\<close> on the two kinds of value the exception handler adds: strings are
  concatenated; an exception object has no \<^verbatim>\<open>__add__\<close>, so adding it to a string raises
  \<^verbatim>\<open>TypeError\<close>.
\<close>

datatype pyval = PyStr string | PyExc pyerr

fun py_add :: "pyval \<Rightarrow> pyval \<Rightarrow> pyerr + pyval" where
  "py_add (PyStr a) (PyStr b) = Inr (PyStr (a @ b))"
| "py_add a b = Inl (TypeError ''unsupported operand type(s) for +'')"

text \<open>
  \<^verbatim>\<open>tf.add\<close> converts both arguments to tensors and raises \<^verbatim>\<open>ValueError\<close> on \<^verbatim>\<open>None\<close>.
  \<^verbatim>\<open>slice_op.slice_add\<close> (not among the sources) is the numeric sum of two gradients.
\<close>

fun tf_add :: "tensor option \<Rightarrow> tensor option \<Rightarrow> pyerr + tensor option" where
  "tf_add (Some a) (Some b) = Inr (Some (TfAdd a b))"
| "tf_add a b = Inl (ValueError ''None values not supported.'')"

definition slice_add :: "tensor \<Rightarrow> tensor \<Rightarrow> tensor" where
  "slice_add a b = SliceAdd a b"

text \<open>The local function \<^verbatim>\<open>_safe_slice_add\<close> of \<^verbatim>\<open>FederalModel._minimize\<close>.\<close>

definition safe_slice_add :: "tensor option \<Rightarrow> tensor option \<Rightarrow> tensor option" where
  "safe_slice_add a b =
     (case a of
        None \<Rightarrow> b
      | Some x \<Rightarrow> (case b of None \<Rightarrow> a | Some y \<Rightarrow> Some (slice_add x y)))"

text \<open>
  \<^verbatim>\<open>tf.nest.map_structure(func, a, b)\<close> on two flat lists, whose leaves are tensors or
  \<^verbatim>\<open>None\<close>: lists of different lengths are different structures (\<^verbatim>\<open>ValueError\<close>);
  otherwise \<^verbatim>\<open>func\<close> is applied leaf by leaf, and raises what it raises.
\<close>

fun map_leaves :: "('a \<Rightarrow> 'a \<Rightarrow> pyerr + 'a) \<Rightarrow> 'a list \<Rightarrow> 'a list \<Rightarrow> pyerr + 'a list" where
  "map_leaves f (x # xs) (y # ys) =
     (case f x y of
        Inl e \<Rightarrow> Inl e
      | Inr z \<Rightarrow> (case map_leaves f xs ys of Inl e \<Rightarrow> Inl e | Inr zs \<Rightarrow> Inr (z # zs)))"
| "map_leaves f xs ys = Inr []"

definition map_structure ::
  "('a \<Rightarrow> 'a \<Rightarrow> pyerr + 'a) \<Rightarrow> 'a list \<Rightarrow> 'a list \<Rightarrow> pyerr + 'a list" where
  "map_structure f xs ys =
     (if length xs \<noteq> length ys
      then Inl (ValueError ''The two structures do not have the same nested structure.'')
      else map_leaves f xs ys)"

subsection \<open>The steps of the federal minimize\<close>

text \<open>
  The loop over the loss sources, lines 572-582 and again 609-619 of the source:
  \<^verbatim>\<open>for y, g in zip(loss, grad_loss)\<close>, skipping a source that is \<^verbatim>\<open>None\<close>, asking the
  optimizer for the gradients of \<open>y\<close> with respect to \<open>xs\<close> (with \<^verbatim>\<open>opt_config\<close> when
  the optimizer takes it) and keeping the gradients of the pairs returned.
\<close>

fun source_grads ::
  "optimizer \<Rightarrow> config \<Rightarrow> tensor list \<Rightarrow> (tensor option \<times> tensor option) list
     \<Rightarrow> pyerr + tensor option list list" where
  "source_grads opt cfg xs [] = Inr []"
| "source_grads opt cfg xs ((y, g) # rest) =
     (case y of
        None \<Rightarrow> source_grads opt cfg xs rest
      | Some l \<Rightarrow>
          (case (if \<not> takes_opt_config opt then compute_gradients opt y xs g None
                 else compute_gradients opt y xs g (Some cfg)) of
             Inl e \<Rightarrow> Inl e
           | Inr grads \<Rightarrow>
               (case source_grads opt cfg xs rest of
                  Inl e \<Rightarrow> Inl e
                | Inr grads_lists \<Rightarrow> Inr (map fst grads # grads_lists))))"

text \<open>
  The loop that sums the lists, lines 584-589 and 621-626: the sum starts as \<^verbatim>\<open>None\<close>,
  takes the first list as it is and combines every later one into it.
\<close>

fun accumulate ::
  "('a list \<Rightarrow> 'a list \<Rightarrow> pyerr + 'a list) \<Rightarrow> 'a list option \<Rightarrow> 'a list list
     \<Rightarrow> pyerr + 'a list option" where
  "accumulate f acc [] = Inr acc"
| "accumulate f acc (l # ls) =
     (case acc of
        None \<Rightarrow> accumulate f (Some l) ls
      | Some a \<Rightarrow>
          (case f a l of Inl e \<Rightarrow> Inl e | Inr a' \<Rightarrow> accumulate f (Some a') ls))"

text \<open>Lines 551-568: the loss sources and their upstream gradients.\<close>

definition loss_sources ::
  "task \<Rightarrow> tensor option \<Rightarrow> optimizer \<Rightarrow> 'z fmodel_scheme
     \<Rightarrow> (tensor option list \<times> tensor option list) \<times> 'z fmodel_scheme" where
  "loss_sources task loss opt m =
     (let send_recv_grad_list = require_grad_ops m task;
          send_ops = map fst send_recv_grad_list;
          recv_grad_ops = map snd send_recv_grad_list
      in if loss \<in> set (map Some send_ops)
         then ((map Some send_ops, map Some recv_grad_ops), m)
         else (let (loss, m) =
                     (if \<not> takes_opt_config opt
                      then (let (r, c) = dict_pop (opt_config m) ''REDUCE'' (CStr ''mean'')
                            in reduce_loss loss r (m\<lparr>opt_config := c\<rparr>))
                      else (loss, m))
               in ((loss # map Some send_ops, None # map Some recv_grad_ops), m)))"

text \<open>Lines 593-597: one send for each received value paired with a gradient.\<close>

fun send_back ::
  "task \<Rightarrow> ((string \<times> tensor) \<times> tensor option) list \<Rightarrow> 'z fmodel_scheme \<Rightarrow> 'z fmodel_scheme" where
  "send_back task [] m = m"
| "send_back task (((name, v), grad) # rest) m =
     (case grad of
        Some g \<Rightarrow> send_back task rest (snd (send (name @ ''_grad'') g False TRAIN task m))
      | None \<Rightarrow>
          send_back task rest (snd (send (name @ ''_grad'') (ZerosLike v) False TRAIN task m)))"

text \<open>
  Lines 570-597: the gradients for the peer. \<^verbatim>\<open>zip(recv_grads, send_grads)\<close> raises
  \<^verbatim>\<open>TypeError\<close> when \<^verbatim>\<open>send_grads\<close> is still \<^verbatim>\<open>None\<close>.
\<close>

definition peer_gradients ::
  "engine \<Rightarrow> task \<Rightarrow> optimizer \<Rightarrow> (string \<times> tensor) list \<Rightarrow> tensor option list
     \<Rightarrow> tensor option list \<Rightarrow> 'z fmodel_scheme \<Rightarrow> (pyerr + unit) \<times> 'z fmodel_scheme" where
  "peer_gradients eng task opt recv_grads loss grad_loss m =
     (if length recv_grads > 0
      then (let (backend, c) = dict_pop (opt_config m) ''BACKEND_MODE'' (CStr ''noise'');
                m = m\<lparr>opt_config := c\<rparr>
            in case (if py_eq_str backend ''noise''
                     then (case source_grads opt (opt_config m) (map snd recv_grads)
                                  (zip loss grad_loss) of
                             Inl e \<Rightarrow> Inl e
                           | Inr grads_lists \<Rightarrow>
                               accumulate (map_structure tf_add) None grads_lists)
                     else (case gradients eng loss (map snd recv_grads) grad_loss of
                             Inl e \<Rightarrow> Inl e
                           | Inr send_grads \<Rightarrow> Inr (Some send_grads))) of
                 Inl e \<Rightarrow> (Inl e, m)
               | Inr None \<Rightarrow> (Inl (TypeError ''zip argument #2 must support iteration''), m)
               | Inr (Some send_grads) \<Rightarrow>
                   (Inr (), send_back task (zip recv_grads send_grads) m))
      else (Inr (), m))"

text \<open>Lines 609-629: the body of the \<^verbatim>\<open>try\<close>.\<close>

definition local_gradients ::
  "optimizer \<Rightarrow> config \<Rightarrow> tensor list \<Rightarrow> tensor option list \<Rightarrow> tensor option list
     \<Rightarrow> pyerr + op" where
  "local_gradients opt cfg var_list loss grad_loss =
     (case source_grads opt cfg var_list (zip loss grad_loss) of
        Inl e \<Rightarrow> Inl e
      | Inr grads_lists \<Rightarrow>
          (case accumulate (map_structure (\<lambda>a b. Inr (safe_slice_add a b))) None grads_lists of
             Inl e \<Rightarrow> Inl e
           | Inr None \<Rightarrow> Inl (TypeError ''zip argument #1 must support iteration'')
           | Inr (Some grads_list) \<Rightarrow> apply_gradients opt (zip grads_list var_list)))"

text \<open>
  Lines 630-632: the handler of \<^verbatim>\<open>ValueError\<close>. The message is built first, as
  \<^verbatim>\<open>e + ' This warning ...'\<close> with the exception object \<open>e\<close> itself; only a message that
  was built is logged, and then the method returns \<^verbatim>\<open>None\<close>.
\<close>

definition on_value_error ::
  "pyerr \<Rightarrow> 'z fmodel_scheme \<Rightarrow> (pyerr + op option) \<times> 'z fmodel_scheme" where
  "on_value_error e m =
     (case py_add (PyExc e)
             (PyStr '' This warning may be caused by either legal or illegal action. Please confirm.'') of
        Inl e' \<Rightarrow> (Inl e', m)
      | Inr (PyStr msg) \<Rightarrow> (Inr None, tf_logging_warn msg m)
      | Inr (PyExc x) \<Rightarrow> (Inr None, m))"

text \<open>\<^verbatim>\<open>FederalModel._minimize\<close>.\<close>

definition federal_minimize ::
  "engine \<Rightarrow> task \<Rightarrow> tensor option \<Rightarrow> tensor list \<times> string \<Rightarrow> optimizer \<Rightarrow> 'z fmodel_scheme
     \<Rightarrow> (pyerr + op option) \<times> 'z fmodel_scheme" where
  "federal_minimize eng task loss vars_to_compute opt m =
     (let var_list = fst vars_to_compute;
          var_scope = snd vars_to_compute;
          recv_grads = get_recv_grad_vars eng m task var_scope;
          ((loss, grad_loss), m) = loss_sources task loss opt m
      in case peer_gradients eng task opt recv_grads loss grad_loss m of
           (Inl e, m) \<Rightarrow> (Inl e, m)
         | (Inr u, m) \<Rightarrow>
             (case local_gradients opt (opt_config m) var_list loss grad_loss of
                Inl (ValueError msg) \<Rightarrow> on_value_error (ValueError msg) m
              | Inl e \<Rightarrow> (Inl e, m)
              | Inr train_op \<Rightarrow> (Inr (Some train_op), m)))"

section \<open>Compilation\<close>

text \<open>
  The user functions, called by their identity. Each takes the model (as the Python
  function takes \<^verbatim>\<open>self\<close>), may change it, and returns its value or raises. An
  optimizer function returns its dictionary from optimizer to
  \<^verbatim>\<open>(var_list, var_scope)\<close> as the list of its items.
\<close>

record 'm user_fns =
  call_input_fn :: "fn \<Rightarrow> mode \<Rightarrow> 'm \<Rightarrow> (pyerr + pyobj) \<times> 'm"
  call_loss_fn :: "fn \<Rightarrow> sample \<Rightarrow> 'm \<Rightarrow> (pyerr + tensor option) \<times> 'm"
  call_optimizer_fn ::
    "fn \<Rightarrow> task \<Rightarrow> 'm \<Rightarrow> (pyerr + (optimizer \<times> tensor list \<times> string) list) \<times> 'm"
  call_eval_fn :: "fn \<Rightarrow> sample \<Rightarrow> 'm \<Rightarrow> (pyerr + op option) \<times> 'm"

text \<open>
  Modelled from the spec: the module \<^verbatim>\<open>task_scope\<close> is not among the sources. The
  block \<^verbatim>\<open>with task_scope.task_scope(task=task, mode=...)\<close> makes \<open>task\<close> the task of the
  ambient scope while its body runs and restores the former one after it.
\<close>

definition task_scope ::
  "task \<Rightarrow> ('z model_scheme \<Rightarrow> 'r \<times> 'z model_scheme) \<Rightarrow> 'z model_scheme
     \<Rightarrow> 'r \<times> 'z model_scheme" where
  "task_scope task body m =
     (let saved = scope_task m;
          (r, m') = body (m\<lparr>scope_task := task\<rparr>)
      in (r, m'\<lparr>scope_task := saved\<rparr>))"

text \<open>\<^verbatim>\<open>Model.input\<close>: the sample compiled for a mode and task.\<close>

definition input :: "mode \<Rightarrow> task \<Rightarrow> 'z model_scheme \<Rightarrow> pyerr + sample" where
  "input md task m =
     (case inputs m (md, resolve_task task m) of
        None \<Rightarrow>
          Inl (ValueError
                 (''get input failed for mode:'' @ str_mode md @ '' task:'' @ str_task task))
      | Some s \<Rightarrow> Inr s)"

definition add_hooks :: "string list \<Rightarrow> mode \<Rightarrow> task \<Rightarrow> 'z model_scheme \<Rightarrow> 'z model_scheme" where
  "add_hooks hs md task m =
     m\<lparr>hooks := hooks m @ map (\<lambda>h. (md, resolve_task task m, h)) hs\<rparr>"



text \<open>
  \<^verbatim>\<open>ops.control_dependencies(control_inputs)\<close> turns each control input into an
  operation of the graph and raises \<^verbatim>\<open>TypeError\<close> on one that is \<^verbatim>\<open>None\<close>.
\<close>

fun control_dependencies :: "op option list \<Rightarrow> pyerr + op list" where
  "control_dependencies [] = Inr []"
| "control_dependencies (None # cs) =
     Inl (TypeError ''Can not convert a NoneType into a Tensor or Operation.'')"
| "control_dependencies (Some c # cs) =
     (case control_dependencies cs of Inl e \<Rightarrow> Inl e | Inr r \<Rightarrow> Inr (c # r))"

text \<open>
  Lines 381-392, the loop over the optimizer bindings of a task. \<open>mini\<close> is the
  \<^verbatim>\<open>_minimize\<close> of the class of the model; \<open>wrap\<close> is
  \<^verbatim>\<open>tf.train.SyncReplicasOptimizer\<close> applied to the optimizer and the supplied
  configuration, whose session hook is registered for the task.
\<close>

type_synonym sync_config = "(string \<times> int) list"

fun minimize_bindings ::
  "(task \<Rightarrow> tensor option \<Rightarrow> tensor list \<times> string \<Rightarrow> optimizer \<Rightarrow> 'z model_scheme
      \<Rightarrow> (pyerr + op option) \<times> 'z model_scheme)
     \<Rightarrow> (sync_config \<Rightarrow> optimizer \<Rightarrow> optimizer) \<Rightarrow> sync_config option \<Rightarrow> task
     \<Rightarrow> tensor option \<Rightarrow> (optimizer \<times> tensor list \<times> string) list \<Rightarrow> 'z model_scheme
     \<Rightarrow> (pyerr + op option list) \<times> 'z model_scheme" where
  "minimize_bindings mini wrap sync_optimizer_config task loss [] m = (Inr [], m)"
| "minimize_bindings mini wrap sync_optimizer_config task loss ((opt, vars_to_compute) # rest) m =
     (let (opt, m) =
            (case sync_optimizer_config of
               None \<Rightarrow> (opt, m)
             | Some cfg \<Rightarrow>
                 (let opt = wrap cfg opt
                  in (opt, add_hooks [''sync_replicas_hook:'' @ opt_name opt] TRAIN task m)))
      in case mini task loss vars_to_compute opt m of
           (Inl e, m) \<Rightarrow> (Inl e, m)
         | (Inr train_op, m) \<Rightarrow>
             (case minimize_bindings mini wrap sync_optimizer_config task loss rest m of
                (Inl e, m) \<Rightarrow> (Inl e, m)
              | (Inr optimize_ops, m) \<Rightarrow> (Inr (train_op # optimize_ops), m)))"

text \<open>
  Lines 371-395, the training part of one round of the loop over \<^verbatim>\<open>loss_fns\<close>. The
  increment of the global step is created inside two blocks of control dependencies,
  the operations of the sample to run before a step and the operations returned for the
  bindings, and has both as its control inputs.
\<close>

definition compile_train ::
  "('z model_scheme) user_fns
     \<Rightarrow> (task \<Rightarrow> tensor option \<Rightarrow> tensor list \<times> string \<Rightarrow> optimizer \<Rightarrow> 'z model_scheme
          \<Rightarrow> (pyerr + op option) \<times> 'z model_scheme)
     \<Rightarrow> (sync_config \<Rightarrow> optimizer \<Rightarrow> optimizer) \<Rightarrow> sync_config option \<Rightarrow> task \<Rightarrow> fn
     \<Rightarrow> 'z model_scheme \<Rightarrow> (pyerr + unit) \<times> 'z model_scheme" where
  "compile_train ufs mini wrap sync_optimizer_config task lf m =
     (case input TRAIN task m of
        Inl e \<Rightarrow> (Inl e, m)
      | Inr task_sample \<Rightarrow>
          (case task_scope task (call_loss_fn ufs lf task_sample) m of
             (Inl e, m) \<Rightarrow> (Inl e, m)
           | (Inr loss, m) \<Rightarrow>
               (let m = m\<lparr>losses := (losses m)(task \<mapsto> loss)\<rparr>
                in case map_of (opt_fns m) task of
                     None \<Rightarrow>
                       (Inl (RuntimeError
                          (''optimizer fn not define for task['' @ str_task task @ '']'')), m)
                   | Some optf \<Rightarrow>
                       (case call_optimizer_fn ufs optf task m of
                          (Inl e, m) \<Rightarrow> (Inl e, m)
                        | (Inr o2v, m) \<Rightarrow>
                            (let m = m\<lparr>opt_to_vars := (opt_to_vars m)(task \<mapsto> o2v)\<rparr>
                             in case minimize_bindings mini wrap sync_optimizer_config
                                       task loss o2v m of
                                  (Inl e, m) \<Rightarrow> (Inl e, m)
                                | (Inr optimize_ops, m) \<Rightarrow>
                                    (case control_dependencies optimize_ops of
                                       Inl e \<Rightarrow> (Inl e, m)
                                     | Inr deps \<Rightarrow>
                                         (Inr (),
                                          add_train_op
                                            (AssignAddGlobalStep 1
                                               (before_step_ops task_sample @ deps))
                                            task m)))))))"

text \<open>Lines 396-402, the evaluation part of the round.\<close>

definition compile_eval ::
  "('z model_scheme) user_fns \<Rightarrow> task \<Rightarrow> 'z model_scheme \<Rightarrow> (pyerr + unit) \<times> 'z model_scheme" where
  "compile_eval ufs task m =
     (case map_of (eval_fns m) task of
        None \<Rightarrow> (Inr (), m)
      | Some ef \<Rightarrow>
          (case input EVAL task m of
             Inl e \<Rightarrow> (Inl e, m)
           | Inr eval_sample \<Rightarrow>
               (case task_scope task (call_eval_fn ufs ef eval_sample) m of
                  (Inl e, m) \<Rightarrow> (Inl e, m)
                | (Inr None, m) \<Rightarrow> (Inr (), m)
                | (Inr (Some eval_op), m) \<Rightarrow> (Inr (), add_eval_op eval_op task m))))"

fun compile_losses ::
  "('z model_scheme) user_fns
     \<Rightarrow> (task \<Rightarrow> tensor option \<Rightarrow> tensor list \<times> string \<Rightarrow> optimizer \<Rightarrow> 'z model_scheme
          \<Rightarrow> (pyerr + op option) \<times> 'z model_scheme)
     \<Rightarrow> (sync_config \<Rightarrow> optimizer \<Rightarrow> optimizer) \<Rightarrow> sync_config option
     \<Rightarrow> (task \<times> fn) list \<Rightarrow> 'z model_scheme \<Rightarrow> (pyerr + unit) \<times> 'z model_scheme" where
  "compile_losses ufs mini wrap sync_optimizer_config [] m = (Inr (), m)"
| "compile_losses ufs mini wrap sync_optimizer_config ((task, lf) # rest) m =
     (case compile_train ufs mini wrap sync_optimizer_config task lf m of
        (Inl e, m) \<Rightarrow> (Inl e, m)
      | (Inr u, m) \<Rightarrow>
          (case compile_eval ufs task m of
             (Inl e, m) \<Rightarrow> (Inl e, m)
           | (Inr u, m) \<Rightarrow> compile_losses ufs mini wrap sync_optimizer_config rest m))"


text \<open>\<^verbatim>\<open>Model.__init__\<close> and \<^verbatim>\<open>FederalModel.__init__\<close>.\<close>

definition Model_init :: model where
  "Model_init =
     \<lparr>inputs = Map.empty, input_fns = [], losses = Map.empty, loss_fns = [],
      train_ops = Map.empty, opt_fns = [], eval_ops = Map.empty, eval_fns = [],
      opt_to_vars = Map.empty, hooks = [], scope_task = None,
      opt_config = DEFAULT_OPT_CONFIG, tf_log = []\<rparr>"

definition FederalModel_init :: "string \<Rightarrow> pyerr + fmodel" where
  "FederalModel_init federal_role =
     (if federal_role \<noteq> ''leader'' \<and> federal_role \<noteq> ''follower''
      then Inl (ValueError ''federal_role must be set one of [leader/follower] in FederalModel.'')
      else Inr (add_hooks [''communicator_hook''] TRAIN None
             \<lparr>inputs = Map.empty, input_fns = [], losses = Map.empty, loss_fns = [],
              train_ops = Map.empty, opt_fns = [], eval_ops = Map.empty, eval_fns = [],
              opt_to_vars = Map.empty, hooks = [], scope_task = None,
              opt_config = DEFAULT_OPT_CONFIG, tf_log = [],
              recv_grad_ops = (\<lambda>t. []), require_grad_ops = (\<lambda>t. [])\<rparr>))"

section \<open>A reference optimizer, engine and models\<close>

text \<open>
  Concrete collaborators on which the theorems below are run. In the reference
  optimizer the gradient of \<open>y\<close> with respect to \<open>x\<close> is defined when \<open>x\<close> occurs in the
  term \<open>y\<close> and is \<^verbatim>\<open>None\<close> otherwise, as a differentiation engine gives \<^verbatim>\<open>None\<close> for a
  value the loss does not depend on; it raises \<^verbatim>\<open>ValueError\<close> where
  \<^verbatim>\<open>tf.train.Optimizer\<close> does: no variables to optimize, no variables provided, no
  gradient for any variable.
\<close>

fun occurs :: "tensor \<Rightarrow> tensor \<Rightarrow> bool" where
  "occurs x (Tensor n d) = (x = Tensor n d)"
| "occurs x (RecvTensor n d) = (x = RecvTensor n d)"
| "occurs x (ReduceMean t) = (x = ReduceMean t \<or> occurs x t)"
| "occurs x (ReduceSum t) = (x = ReduceSum t \<or> occurs x t)"
| "occurs x (ZerosLike t) = (x = ZerosLike t)"
| "occurs x (TfAdd a b) = (x = TfAdd a b \<or> occurs x a \<or> occurs x b)"
| "occurs x (SliceAdd a b) = (x = SliceAdd a b \<or> occurs x a \<or> occurs x b)"
| "occurs x (Gradient y v g) = (x = Gradient y v g)"

definition reference_optimizer :: "string \<Rightarrow> bool \<Rightarrow> optimizer" where
  "reference_optimizer name takes =
     \<lparr>opt_name = name, takes_opt_config = takes,
      compute_gradients = (\<lambda>loss var_list grad_loss cfg.
        case loss of
          None \<Rightarrow> Inl (ValueError ''None values not supported.'')
        | Some y \<Rightarrow>
            if var_list = [] then Inl (ValueError ''No variables to optimize.'')
            else Inr (map (\<lambda>x. (if occurs x y then Some (Gradient y x grad_loss) else None, x))
                        var_list)),
      apply_gradients = (\<lambda>grads_and_vars.
        if grads_and_vars = [] then Inl (ValueError ''No variables provided.'')
        else if filter (\<lambda>(g, v). g \<noteq> None) grads_and_vars = []
        then Inl (ValueError ''No gradients provided for any variable'')
        else Inr (ApplyGradients name grads_and_vars))\<rparr>"

fun joint_gradient :: "(tensor option \<times> tensor option) list \<Rightarrow> tensor \<Rightarrow> tensor option" where
  "joint_gradient [] x = None"
| "joint_gradient ((None, g) # rest) x = joint_gradient rest x"
| "joint_gradient ((Some y, g) # rest) x =
     (if occurs x y
      then (case joint_gradient rest x of
              None \<Rightarrow> Some (Gradient y x g)
            | Some s \<Rightarrow> Some (TfAdd (Gradient y x g) s))
      else joint_gradient rest x)"

text \<open>
  The reference engine differentiates all sources in one pass; a received tensor
  originates in a variable scope when its name starts with the name of the scope.
\<close>

definition reference_engine :: engine where
  "reference_engine =
     \<lparr>gradients = (\<lambda>ys xs grad_ys. Inr (map (joint_gradient (zip ys grad_ys)) xs)),
      origin_scope = (\<lambda>var_scope t.
        case t of RecvTensor n d \<Rightarrow> take (length var_scope) n = var_scope | other \<Rightarrow> False)\<rparr>"

definition leader0 :: fmodel where
  "leader0 = projr (FederalModel_init ''leader'')"

text \<open>
  A party that has received the activation \<^verbatim>\<open>top/act1\<close> with \<^verbatim>\<open>require_grad=True\<close>, and
  one that in addition has sent its embedding \<^verbatim>\<open>emb\<close> with \<^verbatim>\<open>require_grad=True\<close>.
\<close>

definition receiver :: fmodel where
  "receiver = snd (recv ''top/act1'' ''float32'' True None leader0)"

definition exchanger :: fmodel where
  "exchanger = snd (send ''emb'' (Tensor ''emb'' ''float32'') True TRAIN None receiver)"

definition sgd :: optimizer where
  "sgd = reference_optimizer ''sgd'' False"

definition dp_sgd :: optimizer where
  "dp_sgd = reference_optimizer ''dp_sgd'' True"

definition act1 :: tensor where
  "act1 = RecvTensor ''top/act1'' ''float32''"

definition w_top :: tensor where
  "w_top = Tensor ''w_top'' ''float32''"

definition w_bottom :: tensor where
  "w_bottom = Tensor ''w_bottom'' ''float32''"

text \<open>A local loss computed from the received activation and both variables.\<close>

definition local_loss :: tensor where
  "local_loss = ReduceSum (TfAdd (TfAdd act1 w_top) w_bottom)"


text \<open>A loss built from no variable and no received value.\<close>

definition constant_loss :: tensor where
  "constant_loss = Tensor ''loss'' ''float32''"





text \<open>
  A party that has sent, with \<^verbatim>\<open>require_grad=True\<close>, an embedding computed from its
  variable \<^verbatim>\<open>w_bottom\<close> only.
\<close>

definition bottom_emb :: tensor where
  "bottom_emb = TfAdd w_bottom (Tensor ''x'' ''float32'')"

definition sender :: fmodel where
  "sender = snd (send ''emb'' bottom_emb True TRAIN None leader0)"

section \<open>Properties\<close>

subsection \<open>Reduction of the loss\<close>

lemma fst_reduce_loss_indep: "fst (reduce_loss loss r m) = fst (reduce_loss loss r m')"
  by (simp add: reduce_loss_def split: option.splits)

text \<open>
  Claim C8. Applied to a defined loss, \<open>reduce_loss\<close> gives the mean for \<^verbatim>\<open>'mean'\<close>, the
  sum for \<^verbatim>\<open>'sum'\<close> and the result of the callable for a callable, each without a
  warning; for any other value it logs a warning that names the value and gives the
  mean. The mean is the default: it is what \<^verbatim>\<open>pop('REDUCE', 'mean')\<close> reads from the
  default configuration and from a configuration without the key.
\<close>

theorem reduce_loss_cases:
  "reduce_loss (Some l) (CStr ''mean'') m = (Some (ReduceMean l), m)
   \<and> reduce_loss (Some l) (CStr ''sum'') m = (Some (ReduceSum l), m)
   \<and> reduce_loss (Some l) (CFun f) m = (Some (f l), m)
   \<and> (\<not> py_eq_str r ''mean'' \<and> \<not> py_eq_str r ''sum'' \<and> \<not> callable r \<longrightarrow>
        reduce_loss (Some l) r m =
          (Some (ReduceMean l),
           m\<lparr>tf_log := tf_log m @
              [''No such reduce function called '' @ [CHR 0x27] @ py_str r @ [CHR 0x27]
                 @ '', it will use mean by default.'']\<rparr>))
   \<and> fst (dict_pop DEFAULT_OPT_CONFIG ''REDUCE'' (CStr ''mean'')) = CStr ''mean''
   \<and> (c ''REDUCE'' = None \<longrightarrow> fst (dict_pop c ''REDUCE'' (CStr ''mean'')) = CStr ''mean'')"
  by (simp add: reduce_loss_def tf_logging_warn_def dict_pop_def DEFAULT_OPT_CONFIG_def)

theorem reduce_loss_cases_witness:
  "\<not> py_eq_str (CStr ''max'') ''mean'' \<and> \<not> py_eq_str (CStr ''max'') ''sum''
   \<and> \<not> callable (CStr ''max'')
   \<and> reduce_loss (Some (Tensor ''loss'' ''float32'')) (CStr ''max'') Model_init =
       (Some (ReduceMean (Tensor ''loss'' ''float32'')),
        Model_init\<lparr>tf_log :=
          [''No such reduce function called '' @ [CHR 0x27] @ ''max'' @ [CHR 0x27]
             @ '', it will use mean by default.'']\<rparr>)
   \<and> Map.empty ''REDUCE'' = (None :: cfgval option)
   \<and> fst (dict_pop Map.empty ''REDUCE'' (CStr ''mean'')) = CStr ''mean''"
  using reduce_loss_cases
    [of "Tensor ''loss'' ''float32''" Model_init ReduceSum "CStr ''max''" Map.empty]
  by (simp add: Model_init_def)

subsection \<open>Registration of the user functions\<close>

lemma map_of_set_item: "\<not> has_key d k \<Longrightarrow> map_of (set_item d k v) k = Some v"
  by (simp add: set_item_def has_key_def map_add_def)

lemma has_key_set_item: "\<not> has_key d k \<Longrightarrow> has_key (set_item d k v) k"
  using map_of_set_item [of d k v] by (simp add: has_key_def)

lemma resolve_task_input_fns [simp]:
  "resolve_task task (m\<lparr>input_fns := x\<rparr>) = resolve_task task m"
  by (simp add: resolve_task_def split: option.splits)

lemma resolve_task_loss_fns [simp]:
  "resolve_task task (m\<lparr>loss_fns := x\<rparr>) = resolve_task task m"
  by (simp add: resolve_task_def split: option.splits)

lemma resolve_task_opt_fns [simp]:
  "resolve_task task (m\<lparr>opt_fns := x\<rparr>) = resolve_task task m"
  by (simp add: resolve_task_def split: option.splits)

lemma input_fn_twice:
  "(fst (input_fn f task m) = Inr ()) = (\<not> has_key (input_fns m) (resolve_task task m))
   \<and> (input_fn f task m = (Inr (), m') \<longrightarrow>
        map_of (input_fns m') (resolve_task task m) = Some f
        \<and> input_fn g task m' =
            (Inl (ValueError (''input define twice for task:'' @ str_task (resolve_task task m))),
             m'))"
  by (auto simp: input_fn_def Let_def map_of_set_item has_key_set_item)

lemma loss_fn_twice:
  "(fst (loss_fn f task m) = Inr ()) = (\<not> has_key (loss_fns m) (resolve_task task m))
   \<and> (loss_fn f task m = (Inr (), m') \<longrightarrow>
        map_of (loss_fns m') (resolve_task task m) = Some f
        \<and> loss_fn g task m' =
            (Inl (ValueError (''loss define twice for task:'' @ str_task (resolve_task task m))),
             m'))"
  by (auto simp: loss_fn_def Let_def map_of_set_item has_key_set_item)

lemma optimizer_fn_twice:
  "(fst (optimizer_fn f task m) = Inr ()) = (\<not> has_key (opt_fns m) (resolve_task task m))
   \<and> (optimizer_fn f task m = (Inr (), m') \<longrightarrow>
        map_of (opt_fns m') (resolve_task task m) = Some f
        \<and> optimizer_fn g task m' =
            (Inl (ValueError
                    (''optimizer define twice for task:'' @ str_task (resolve_task task m))),
             m'))"
  by (auto simp: optimizer_fn_def Let_def map_of_set_item has_key_set_item)

text \<open>
  Claim C9. For each of \<open>input_fn\<close>, \<open>loss_fn\<close> and \<open>optimizer_fn\<close>: a registration
  succeeds exactly when no function of that kind is registered for the task; after a
  registration that succeeded, the task maps to the function registered, and any
  second registration for the task raises \<^verbatim>\<open>ValueError\<close> and leaves the model, so the
  first registration, as it is.
\<close>

theorem register_twice:
  "((fst (input_fn f task m) = Inr ()) = (\<not> has_key (input_fns m) (resolve_task task m))
    \<and> (input_fn f task m = (Inr (), m') \<longrightarrow>
         map_of (input_fns m') (resolve_task task m) = Some f
         \<and> input_fn g task m' =
             (Inl (ValueError
                     (''input define twice for task:'' @ str_task (resolve_task task m))),
              m')))
   \<and> ((fst (loss_fn f task m) = Inr ()) = (\<not> has_key (loss_fns m) (resolve_task task m))
    \<and> (loss_fn f task m = (Inr (), m') \<longrightarrow>
         map_of (loss_fns m') (resolve_task task m) = Some f
         \<and> loss_fn g task m' =
             (Inl (ValueError
                     (''loss define twice for task:'' @ str_task (resolve_task task m))),
              m')))
   \<and> ((fst (optimizer_fn f task m) = Inr ()) = (\<not> has_key (opt_fns m) (resolve_task task m))
    \<and> (optimizer_fn f task m = (Inr (), m') \<longrightarrow>
         map_of (opt_fns m') (resolve_task task m) = Some f
         \<and> optimizer_fn g task m' =
             (Inl (ValueError
                     (''optimizer define twice for task:'' @ str_task (resolve_task task m))),
              m')))"
  using input_fn_twice loss_fn_twice optimizer_fn_twice by blast

theorem register_twice_witness:
  "input_fn 1 (Some ''t1'') Model_init =
     (Inr (), Model_init\<lparr>input_fns := [(Some ''t1'', 1)]\<rparr>)
   \<and> map_of (input_fns (Model_init\<lparr>input_fns := [(Some ''t1'', 1)]\<rparr>)) (Some ''t1'') = Some 1
   \<and> input_fn 2 (Some ''t1'') (Model_init\<lparr>input_fns := [(Some ''t1'', 1)]\<rparr>) =
       (Inl (ValueError ''input define twice for task:t1''),
        Model_init\<lparr>input_fns := [(Some ''t1'', 1)]\<rparr>)
   \<and> loss_fn 3 (Some ''t1'') Model_init =
       (Inr (), Model_init\<lparr>loss_fns := [(Some ''t1'', 3)]\<rparr>)
   \<and> loss_fn 4 (Some ''t1'') (Model_init\<lparr>loss_fns := [(Some ''t1'', 3)]\<rparr>) =
       (Inl (ValueError ''loss define twice for task:t1''),
        Model_init\<lparr>loss_fns := [(Some ''t1'', 3)]\<rparr>)
   \<and> optimizer_fn 5 None Model_init = (Inr (), Model_init\<lparr>opt_fns := [(None, 5)]\<rparr>)
   \<and> optimizer_fn 6 None (Model_init\<lparr>opt_fns := [(None, 5)]\<rparr>) =
       (Inl (ValueError ''optimizer define twice for task:None''),
        Model_init\<lparr>opt_fns := [(None, 5)]\<rparr>)"
  using
    register_twice
      [of 1 "Some ''t1''" Model_init "Model_init\<lparr>input_fns := [(Some ''t1'', 1)]\<rparr>" 2]
    register_twice
      [of 3 "Some ''t1''" Model_init "Model_init\<lparr>loss_fns := [(Some ''t1'', 3)]\<rparr>" 4]
    register_twice [of 5 None Model_init "Model_init\<lparr>opt_fns := [(None, 5)]\<rparr>" 6]
  by (simp add: input_fn_def loss_fn_def optimizer_fn_def Model_init_def resolve_task_def
      has_key_def set_item_def)

subsection \<open>The loss sources\<close>

lemma leader0_simp:
  "leader0 =
     \<lparr>inputs = Map.empty, input_fns = [], losses = Map.empty, loss_fns = [],
      train_ops = Map.empty, opt_fns = [], eval_ops = Map.empty, eval_fns = [],
      opt_to_vars = Map.empty, hooks = [(TRAIN, None, ''communicator_hook'')],
      scope_task = None, opt_config = DEFAULT_OPT_CONFIG, tf_log = [],
      recv_grad_ops = (\<lambda>t. []), require_grad_ops = (\<lambda>t. [])\<rparr>"
  by (simp add: leader0_def FederalModel_init_def add_hooks_def resolve_task_def)

text \<open>
  Claim C2, amended. When the local loss is one of the sent values of the task, the
  loss sources are the sent values, paired with their pending gradients, and the model
  is unchanged. Otherwise the sources are the local loss followed by the sent values,
  paired with \<^verbatim>\<open>None\<close> followed by the pending gradients, where the local loss is
  reduced when \<^verbatim>\<open>compute_gradients\<close> of the optimizer has no parameter \<^verbatim>\<open>opt_config\<close>
  and is left as it is when the optimizer has one.
\<close>

theorem loss_sources_assembly:
  "(loss \<in> set (map (Some \<circ> fst) (require_grad_ops m task)) \<longrightarrow>
      loss_sources task loss opt m =
        ((map (Some \<circ> fst) (require_grad_ops m task),
          map (Some \<circ> snd) (require_grad_ops m task)), m))
   \<and> (loss \<notin> set (map (Some \<circ> fst) (require_grad_ops m task)) \<and> \<not> takes_opt_config opt \<longrightarrow>
      fst (loss_sources task loss opt m) =
        (fst (reduce_loss loss (fst (dict_pop (opt_config m) ''REDUCE'' (CStr ''mean''))) m)
           # map (Some \<circ> fst) (require_grad_ops m task),
         None # map (Some \<circ> snd) (require_grad_ops m task)))
   \<and> (loss \<notin> set (map (Some \<circ> fst) (require_grad_ops m task)) \<and> takes_opt_config opt \<longrightarrow>
      loss_sources task loss opt m =
        ((loss # map (Some \<circ> fst) (require_grad_ops m task),
          None # map (Some \<circ> snd) (require_grad_ops m task)), m))"
proof -
  have ind: "fst (reduce_loss loss r (m\<lparr>opt_config := c\<rparr>)) = fst (reduce_loss loss r m)"
    for r c
    by (rule fst_reduce_loss_indep)
  show ?thesis
    by (auto simp: loss_sources_def Let_def split_beta ind)
qed

theorem loss_sources_assembly_witness:
  "Some local_loss \<notin> set (map (Some \<circ> fst) (require_grad_ops exchanger None))
   \<and> \<not> takes_opt_config sgd
   \<and> fst (loss_sources None (Some local_loss) sgd exchanger) =
       ([Some (ReduceMean local_loss), Some (Tensor ''emb'' ''float32'')],
        [None, Some (RecvTensor ''emb_grad'' ''float32'')])
   \<and> takes_opt_config dp_sgd
   \<and> loss_sources None (Some local_loss) dp_sgd exchanger =
       (([Some local_loss, Some (Tensor ''emb'' ''float32'')],
         [None, Some (RecvTensor ''emb_grad'' ''float32'')]), exchanger)
   \<and> Some (Tensor ''emb'' ''float32'')
       \<in> set (map (Some \<circ> fst) (require_grad_ops exchanger None))
   \<and> loss_sources None (Some (Tensor ''emb'' ''float32'')) sgd exchanger =
       (([Some (Tensor ''emb'' ''float32'')], [Some (RecvTensor ''emb_grad'' ''float32'')]),
        exchanger)"
  using loss_sources_assembly [of "Some local_loss" exchanger None sgd]
    loss_sources_assembly [of "Some local_loss" exchanger None dp_sgd]
    loss_sources_assembly [of "Some (Tensor ''emb'' ''float32'')" exchanger None sgd]
  by (simp add: exchanger_def receiver_def leader0_simp send_def recv_def Let_def
      resolve_task_def add_train_op_def communicator_send_def communicator_recv_def
      local_loss_def act1_def w_top_def w_bottom_def sgd_def dp_sgd_def reference_optimizer_def
      reduce_loss_def dict_pop_def DEFAULT_OPT_CONFIG_def)

text \<open>
  The claim as stated fails for an optimizer that takes \<^verbatim>\<open>opt_config\<close>: with no sent
  value, the only loss source is the local loss itself, not its reduction.
\<close>

theorem loss_sources_counterexample:
  "Some local_loss \<notin> set (map (Some \<circ> fst) (require_grad_ops leader0 None))
   \<and> fst (loss_sources None (Some local_loss) dp_sgd leader0) \<noteq>
       (fst (reduce_loss (Some local_loss)
               (fst (dict_pop (opt_config leader0) ''REDUCE'' (CStr ''mean''))) leader0)
          # map (Some \<circ> fst) (require_grad_ops leader0 None),
        None # map (Some \<circ> snd) (require_grad_ops leader0 None))"
  by (simp add: leader0_simp loss_sources_def dp_sgd_def reference_optimizer_def
      reduce_loss_def dict_pop_def DEFAULT_OPT_CONFIG_def local_loss_def)

subsection \<open>The handler of ValueError\<close>

lemmas fixture_defs = exchanger_def receiver_def leader0_simp send_def recv_def Let_def
  resolve_task_def add_train_op_def communicator_send_def communicator_recv_def
  local_loss_def act1_def w_top_def w_bottom_def sgd_def dp_sgd_def reference_optimizer_def
  reduce_loss_def dict_pop_def DEFAULT_OPT_CONFIG_def reference_engine_def
  get_recv_grad_vars_def

lemmas minimize_steps = federal_minimize_def loss_sources_def peer_gradients_def
  local_gradients_def map_structure_def safe_slice_add_def slice_add_def

lemma on_value_error_raises:
  "on_value_error e m = (Inl (TypeError ''unsupported operand type(s) for +''), m)"
  by (simp add: on_value_error_def)

text \<open>
  Claim C1, which the code breaks. Whenever the gradients for the peer were handled
  and the local gradient computation or application raises \<^verbatim>\<open>ValueError\<close>,
  \<open>federal_minimize\<close> raises \<^verbatim>\<open>TypeError\<close>: the handler adds the exception object to a
  string. The model returned is the one the \<^verbatim>\<open>try\<close> block started from, so no warning
  was logged, and no \<^verbatim>\<open>None\<close> is returned for the binding.
\<close>

theorem value_error_handler_raises:
  assumes "loss_sources task loss opt m = ((ls, gs), m1)"
    and "peer_gradients eng task opt (get_recv_grad_vars eng m task var_scope) ls gs m1
           = (Inr (), m2)"
    and "local_gradients opt (opt_config m2) var_list ls gs = Inl (ValueError msg)"
  shows "federal_minimize eng task loss (var_list, var_scope) opt m =
           (Inl (TypeError ''unsupported operand type(s) for +''), m2)"
  using assms by (simp add: federal_minimize_def on_value_error_raises)

theorem value_error_handler_raises_witness:
  "loss_sources None (Some constant_loss) sgd leader0 =
     (([Some (ReduceMean constant_loss)], [None]),
      leader0\<lparr>opt_config := (opt_config leader0)(''REDUCE'' := None)\<rparr>)
   \<and> peer_gradients reference_engine None sgd
        (get_recv_grad_vars reference_engine leader0 None ''top'')
        [Some (ReduceMean constant_loss)] [None]
        (leader0\<lparr>opt_config := (opt_config leader0)(''REDUCE'' := None)\<rparr>) =
       (Inr (), leader0\<lparr>opt_config := (opt_config leader0)(''REDUCE'' := None)\<rparr>)
   \<and> local_gradients sgd
        (opt_config (leader0\<lparr>opt_config := (opt_config leader0)(''REDUCE'' := None)\<rparr>))
        [w_top] [Some (ReduceMean constant_loss)] [None] =
       Inl (ValueError ''No gradients provided for any variable'')
   \<and> federal_minimize reference_engine None (Some constant_loss) ([w_top], ''top'') sgd leader0 =
       (Inl (TypeError ''unsupported operand type(s) for +''),
        leader0\<lparr>opt_config := (opt_config leader0)(''REDUCE'' := None)\<rparr>)
   \<and> tf_log (snd (federal_minimize reference_engine None (Some constant_loss)
                     ([w_top], ''top'') sgd leader0)) = []"
proof -
  let ?m1 = "leader0\<lparr>opt_config := (opt_config leader0)(''REDUCE'' := None)\<rparr>"
  have h1: "loss_sources None (Some constant_loss) sgd leader0 =
              (([Some (ReduceMean constant_loss)], [None]), ?m1)"
    by (simp add: loss_sources_def fixture_defs constant_loss_def)
  have h2: "peer_gradients reference_engine None sgd
              (get_recv_grad_vars reference_engine leader0 None ''top'')
              [Some (ReduceMean constant_loss)] [None] ?m1 = (Inr (), ?m1)"
    by (simp add: peer_gradients_def fixture_defs)
  have h3: "local_gradients sgd (opt_config ?m1) [w_top] [Some (ReduceMean constant_loss)] [None]
              = Inl (ValueError ''No gradients provided for any variable'')"
    by (simp add: local_gradients_def map_structure_def fixture_defs constant_loss_def)
  have log: "tf_log ?m1 = []" by (simp add: leader0_simp)
  from value_error_handler_raises [OF h1 h2 h3] h1 h2 h3 log show ?thesis by simp
qed

subsection \<open>The gradients sent back to the peer\<close>

lemma resolve_task_send [simp]:
  "resolve_task t (snd (send name x rg md task m)) = resolve_task t m"
  by (simp add: send_def recv_def Let_def add_train_op_def add_eval_op_def split_beta
      resolve_task_def split: option.splits)

lemma train_ops_send:
  "train_ops (snd (send name x False TRAIN task m)) (resolve_task task m) =
     Some ((case train_ops m (resolve_task task m) of None \<Rightarrow> [] | Some l \<Rightarrow> l)
           @ [SendOp name x])"
  by (simp add: send_def Let_def add_train_op_def communicator_send_def)

text \<open>
  Once a list of gradients for the peer exists, the loop of lines 593-597 sends one
  message for each received value paired with a gradient, in order: the gradient, or
  zeros like the received value when the gradient is \<^verbatim>\<open>None\<close>.
\<close>

lemma send_back_replies:
  "pairs \<noteq> [] \<Longrightarrow>
   train_ops (send_back task pairs m) (resolve_task task m) =
     Some ((case train_ops m (resolve_task task m) of None \<Rightarrow> [] | Some l \<Rightarrow> l)
           @ map (\<lambda>((name, v), grad).
                    SendOp (name @ ''_grad'')
                      (case grad of Some g \<Rightarrow> g | None \<Rightarrow> ZerosLike v))
               pairs)"
proof (induction task pairs m rule: send_back.induct)
  case (1 task m)
  then show ?case by simp
next
  case (2 task name v grad rest m)
  show ?case
  proof (cases rest)
    case Nil
    then show ?thesis by (simp add: train_ops_send split: option.splits)
  next
    case (Cons p ps)
    then have ne: "rest \<noteq> []" by simp
    show ?thesis
    proof (cases grad)
      case None
      with 2 ne show ?thesis
        by (simp add: train_ops_send)
    next
      case (Some g)
      with 2 ne show ?thesis
        by (simp add: train_ops_send)
    qed
  qed
qed

text \<open>
  Claim C3, which the code breaks. The party \<open>exchanger\<close> has received \<^verbatim>\<open>top/act1\<close> with
  \<^verbatim>\<open>require_grad=True\<close> and has sent \<^verbatim>\<open>emb\<close>, which does not depend on it; its local
  loss does. In the default noise mode the gradient lists of the two loss sources are
  summed with \<^verbatim>\<open>tf.add\<close>, which raises on the \<^verbatim>\<open>None\<close> of the second source: the
  minimize raises \<^verbatim>\<open>ValueError\<close> and no message \<^verbatim>\<open>top/act1_grad\<close> is sent (the only
  training operation is still the send of \<^verbatim>\<open>emb\<close>). The local path combines the same
  two sources without an error. With no loss source at all the sum stays \<^verbatim>\<open>None\<close>,
  the loop over \<^verbatim>\<open>zip(recv_grads, send_grads)\<close> raises \<^verbatim>\<open>TypeError\<close>, and again
  nothing is sent.
\<close>

theorem peer_reply_omitted:
  "get_recv_grad_vars reference_engine exchanger None ''top'' = [(''top/act1'', act1)]
   \<and> fst (federal_minimize reference_engine None (Some local_loss) ([w_top], ''top'') sgd
            exchanger) = Inl (ValueError ''None values not supported.'')
   \<and> train_ops (snd (federal_minimize reference_engine None (Some local_loss)
                        ([w_top], ''top'') sgd exchanger)) None
       = Some [SendOp ''emb'' (Tensor ''emb'' ''float32'')]
   \<and> local_gradients sgd Map.empty [w_top]
        [Some (ReduceMean local_loss), Some (Tensor ''emb'' ''float32'')]
        [None, Some (RecvTensor ''emb_grad'' ''float32'')]
       = Inr (ApplyGradients ''sgd''
                [(Some (Gradient (ReduceMean local_loss) w_top None), w_top)])
   \<and> get_recv_grad_vars reference_engine receiver None ''top'' = [(''top/act1'', act1)]
   \<and> fst (federal_minimize reference_engine None None ([w_top], ''top'') sgd receiver)
       = Inl (TypeError ''zip argument #2 must support iteration'')
   \<and> train_ops (snd (federal_minimize reference_engine None None ([w_top], ''top'') sgd
                        receiver)) None = None"
  by (simp add: minimize_steps fixture_defs)

subsection \<open>A binding without exchange\<close>

lemma reduce_loss_Some: "\<exists>l' m'. reduce_loss (Some l) r m = (Some l', m')"
  by (simp add: reduce_loss_def)

lemma minimize_unfold:
  assumes "\<not> takes_opt_config opt"
    and "dict_pop (opt_config m) ''REDUCE'' (CStr ''mean'') = (r, c)"
    and "reduce_loss loss r (m\<lparr>opt_config := c\<rparr>) = (loss', m1)"
  shows "minimize task loss (var_list, var_scope) opt m =
           (case compute_gradients opt loss' var_list None None of
              Inl e \<Rightarrow> (Inl e, m1)
            | Inr gv \<Rightarrow>
                (case apply_gradients opt gv of
                   Inl e \<Rightarrow> (Inl e, m1)
                 | Inr train_op \<Rightarrow> (Inr (Some train_op), m1)))"
  using assms by (simp add: minimize_def)

lemma loss_sources_unfold:
  assumes "\<not> takes_opt_config opt"
    and "require_grad_ops m task = []"
    and "dict_pop (opt_config m) ''REDUCE'' (CStr ''mean'') = (r, c)"
    and "reduce_loss loss r (m\<lparr>opt_config := c\<rparr>) = (loss', m1)"
  shows "loss_sources task loss opt m = (([loss'], [None]), m1)"
  using assms by (simp add: loss_sources_def)

lemma local_gradients_single:
  assumes "\<not> takes_opt_config opt"
  shows "local_gradients opt cfg var_list [Some l] [None] =
           (case compute_gradients opt (Some l) var_list None None of
              Inl e \<Rightarrow> Inl e
            | Inr gv \<Rightarrow> apply_gradients opt (zip (map fst gv) var_list))"
  using assms by (simp add: local_gradients_def split: sum.splits)

lemma reference_optimizer_pairs:
  "compute_gradients (reference_optimizer name takes) y xs g c = Inr gvs \<Longrightarrow> map snd gvs = xs"
  by (auto simp: reference_optimizer_def comp_def split: option.splits if_splits)

text \<open>
  Claim C5, amended. For a task with no sent value that requires a gradient, a binding
  whose scope matches no received value that requires one, a defined local loss and an
  optimizer whose \<^verbatim>\<open>compute_gradients\<close> has no parameter \<^verbatim>\<open>opt_config\<close> and returns its
  gradients paired with the variables it was given: unless the outcome is a
  \<^verbatim>\<open>ValueError\<close>, \<open>federal_minimize\<close> returns what \<open>minimize\<close> of \<^verbatim>\<open>Model\<close> returns, result
  and model, and leaves the training and evaluation operations and the records of sent
  and received values as they were, so nothing is sent or received.
\<close>

theorem federal_minimize_without_exchange:
  assumes rg: "require_grad_ops m task = []"
    and rv: "get_recv_grad_vars eng m task var_scope = []"
    and nt: "\<not> takes_opt_config opt"
    and wf: "\<forall>y xs g c gvs. compute_gradients opt y xs g c = Inr gvs \<longrightarrow> map snd gvs = xs"
    and nv: "\<forall>msg. fst (minimize task (Some l) (var_list, var_scope) opt m)
               \<noteq> Inl (ValueError msg)"
  shows "federal_minimize eng task (Some l) (var_list, var_scope) opt m =
           minimize task (Some l) (var_list, var_scope) opt m
         \<and> train_ops (snd (federal_minimize eng task (Some l) (var_list, var_scope) opt m))
             = train_ops m
         \<and> eval_ops (snd (federal_minimize eng task (Some l) (var_list, var_scope) opt m))
             = eval_ops m
         \<and> recv_grad_ops (snd (federal_minimize eng task (Some l) (var_list, var_scope) opt m))
             = recv_grad_ops m
         \<and> require_grad_ops (snd (federal_minimize eng task (Some l) (var_list, var_scope) opt m))
             = require_grad_ops m"
proof -
  obtain r c where pop: "dict_pop (opt_config m) ''REDUCE'' (CStr ''mean'') = (r, c)"
    by (cases "dict_pop (opt_config m) ''REDUCE'' (CStr ''mean'')")
  obtain l' m1 where red: "reduce_loss (Some l) r (m\<lparr>opt_config := c\<rparr>) = (Some l', m1)"
    using reduce_loss_Some by blast
  have frame: "train_ops m1 = train_ops m" "eval_ops m1 = eval_ops m"
    "recv_grad_ops m1 = recv_grad_ops m" "require_grad_ops m1 = require_grad_ops m"
    using red by (auto simp: reduce_loss_def tf_logging_warn_def split: if_splits)
  have base: "minimize task (Some l) (var_list, var_scope) opt m =
           (case compute_gradients opt (Some l') var_list None None of
              Inl e \<Rightarrow> (Inl e, m1)
            | Inr gv \<Rightarrow>
                (case apply_gradients opt gv of
                   Inl e \<Rightarrow> (Inl e, m1)
                 | Inr train_op \<Rightarrow> (Inr (Some train_op), m1)))"
    by (rule minimize_unfold [OF nt pop red])
  have src: "loss_sources task (Some l) opt m = (([Some l'], [None]), m1)"
    by (rule loss_sources_unfold [OF nt rg pop red])
  have peer: "peer_gradients eng task opt [] [Some l'] [None] m1 = (Inr (), m1)"
    by (simp add: peer_gradients_def)
  have loc: "local_gradients opt (opt_config m1) var_list [Some l'] [None] =
           (case compute_gradients opt (Some l') var_list None None of
              Inl e \<Rightarrow> Inl e
            | Inr gv \<Rightarrow> apply_gradients opt (zip (map fst gv) var_list))"
    by (rule local_gradients_single [OF nt])
  have fed: "federal_minimize eng task (Some l) (var_list, var_scope) opt m =
           (case local_gradients opt (opt_config m1) var_list [Some l'] [None] of
                Inl (ValueError msg) \<Rightarrow> on_value_error (ValueError msg) m1
              | Inl e \<Rightarrow> (Inl e, m1)
              | Inr train_op \<Rightarrow> (Inr (Some train_op), m1))"
    by (simp add: federal_minimize_def rv src peer)
  have eq: "federal_minimize eng task (Some l) (var_list, var_scope) opt m =
           minimize task (Some l) (var_list, var_scope) opt m"
  proof (cases "compute_gradients opt (Some l') var_list None None")
    case (Inl e)
    with nv base have "\<forall>msg. e \<noteq> ValueError msg" by auto
    with Inl show ?thesis by (cases e) (simp_all add: fed loc base)
  next
    case (Inr gv)
    with wf have "map snd gv = var_list" by blast
    then have z: "zip (map fst gv) var_list = gv" by (auto simp: zip_map_fst_snd)
    show ?thesis
    proof (cases "apply_gradients opt gv")
      case (Inl e)
      with nv base Inr have "\<forall>msg. e \<noteq> ValueError msg" by auto
      with Inl Inr z show ?thesis by (cases e) (simp_all add: fed loc base)
    next
      case (Inr train_op)
      with \<open>compute_gradients opt (Some l') var_list None None = Inr gv\<close> z
      show ?thesis by (simp add: fed loc base)
    qed
  qed
  have snd_base: "snd (minimize task (Some l) (var_list, var_scope) opt m) = m1"
    by (simp add: base split: sum.splits)
  show ?thesis using eq snd_base frame by simp
qed

theorem federal_minimize_without_exchange_witness:
  "require_grad_ops leader0 None = []
   \<and> get_recv_grad_vars reference_engine leader0 None ''top'' = []
   \<and> \<not> takes_opt_config sgd
   \<and> minimize None (Some local_loss) ([w_top], ''top'') sgd leader0 =
       (Inr (Some (ApplyGradients ''sgd''
                     [(Some (Gradient (ReduceMean local_loss) w_top None), w_top)])),
        leader0\<lparr>opt_config := (opt_config leader0)(''REDUCE'' := None)\<rparr>)
   \<and> federal_minimize reference_engine None (Some local_loss) ([w_top], ''top'') sgd leader0 =
       minimize None (Some local_loss) ([w_top], ''top'') sgd leader0
   \<and> train_ops (snd (federal_minimize reference_engine None (Some local_loss)
                        ([w_top], ''top'') sgd leader0)) = train_ops leader0"
proof -
  have rg: "require_grad_ops leader0 None = []" by (simp add: leader0_simp)
  have rv: "get_recv_grad_vars reference_engine leader0 None ''top'' = []"
    by (simp add: get_recv_grad_vars_def leader0_simp)
  have nt: "\<not> takes_opt_config sgd" by (simp add: sgd_def reference_optimizer_def)
  have wf: "\<forall>y xs g c gvs. compute_gradients sgd y xs g c = Inr gvs \<longrightarrow> map snd gvs = xs"
    unfolding sgd_def using reference_optimizer_pairs by blast
  have val: "minimize None (Some local_loss) ([w_top], ''top'') sgd leader0 =
       (Inr (Some (ApplyGradients ''sgd''
                     [(Some (Gradient (ReduceMean local_loss) w_top None), w_top)])),
        leader0\<lparr>opt_config := (opt_config leader0)(''REDUCE'' := None)\<rparr>)"
    by (simp add: minimize_def fixture_defs)
  have nv: "\<forall>msg. fst (minimize None (Some local_loss) ([w_top], ''top'') sgd leader0)
              \<noteq> Inl (ValueError msg)"
    by (simp add: val)
  from federal_minimize_without_exchange [OF rg rv nt wf nv] rg rv nt val
  show ?thesis by simp
qed

text \<open>
  The claim as stated fails: a task with no sent value may still have received values
  that require a gradient. For the party \<open>receiver\<close> the federal minimize sends
  \<^verbatim>\<open>top/act1_grad\<close>, which \<open>minimize\<close> of \<^verbatim>\<open>Model\<close> does not.
\<close>

theorem federal_minimize_counterexample:
  "require_grad_ops receiver None = []
   \<and> train_ops (snd (minimize None (Some local_loss) ([w_top], ''top'') sgd receiver)) None
       = None
   \<and> train_ops (snd (federal_minimize reference_engine None (Some local_loss)
                        ([w_top], ''top'') sgd receiver)) None =
       Some [SendOp ''top/act1_grad'' (Gradient (ReduceMean local_loss) act1 None)]
   \<and> federal_minimize reference_engine None (Some local_loss) ([w_top], ''top'') sgd receiver
       \<noteq> minimize None (Some local_loss) ([w_top], ''top'') sgd receiver"
proof -
  have a: "require_grad_ops receiver None = []" by (simp add: fixture_defs)
  have b: "train_ops (snd (minimize None (Some local_loss) ([w_top], ''top'') sgd receiver))
             None = None"
    by (simp add: minimize_def fixture_defs)
  have c: "train_ops (snd (federal_minimize reference_engine None (Some local_loss)
                             ([w_top], ''top'') sgd receiver)) None =
       Some [SendOp ''top/act1_grad'' (Gradient (ReduceMean local_loss) act1 None)]"
    by (simp add: minimize_steps fixture_defs)
  from b c have d:
    "federal_minimize reference_engine None (Some local_loss) ([w_top], ''top'') sgd receiver
       \<noteq> minimize None (Some local_loss) ([w_top], ''top'') sgd receiver"
    by auto
  from a b c d show ?thesis by blast
qed

subsection \<open>The shared optimizer configuration\<close>


lemma opt_config_reduce_loss [simp]: "opt_config (snd (reduce_loss loss r m)) = opt_config m"
  by (simp add: reduce_loss_def tf_logging_warn_def split: option.splits)

lemma opt_config_send [simp]: "opt_config (snd (send name t rg md task m)) = opt_config m"
  by (simp add: send_def recv_def Let_def add_train_op_def add_eval_op_def split_beta)

lemma opt_config_send_back [simp]: "opt_config (send_back task pairs m) = opt_config m"
  by (induction task pairs m rule: send_back.induct) (simp_all split: option.splits)








subsection \<open>The training operation of a task\<close>



lemma compile_losses_rounds:
  "compile_losses ufs mini wrap sync fns m = (Inr (), m') \<Longrightarrow> (task, lf) \<in> set fns \<Longrightarrow>
     \<exists>ma mb. compile_train ufs mini wrap sync task lf ma = (Inr (), mb)"
proof (induction fns arbitrary: m)
  case Nil
  then show ?case by simp
next
  case (Cons p rest)
  obtain t f where p: "p = (t, f)" by (cases p)
  from Cons.prems(1) obtain m1 m2 where
    tr: "compile_train ufs mini wrap sync t f m = (Inr (), m1)"
    and rest: "compile_losses ufs mini wrap sync rest m2 = (Inr (), m')"
    by (auto simp: p split: sum.splits prod.splits)
  from Cons.prems(2) have "(task, lf) = (t, f) \<or> (task, lf) \<in> set rest" by (simp add: p)
  then show ?case
  proof
    assume "(task, lf) = (t, f)"
    with tr show ?thesis by blast
  next
    assume "(task, lf) \<in> set rest"
    with Cons.IH [OF rest] show ?thesis by blast
  qed
qed




subsection \<open>The samples of the input functions\<close>




subsection \<open>The combination of the local gradients\<close>

lemma map_leaves_total:
  "length xs = length ys \<Longrightarrow>
     map_leaves (\<lambda>a b. Inr (f a b)) xs ys = Inr (map (\<lambda>(a, b). f a b) (zip xs ys))"
  by (induction xs ys rule: list_induct2) simp_all

lemma map_structure_safe_slice_add:
  "length xs = length ys \<Longrightarrow>
     map_structure (\<lambda>a b. Inr (safe_slice_add a b)) xs ys =
       Inr (map (\<lambda>(a, b). safe_slice_add a b) (zip xs ys))"
  by (simp add: map_structure_def map_leaves_total)

lemma accumulate_safe_slice_add:
  "\<forall>l \<in> set ls. length l = length a \<Longrightarrow>
     accumulate (map_structure (\<lambda>a b. Inr (safe_slice_add a b))) (Some a) ls =
       Inr (Some (foldl (\<lambda>acc l. map (\<lambda>(x, y). safe_slice_add x y) (zip acc l)) a ls))"
proof (induction ls arbitrary: a)
  case Nil
  then show ?case by simp
next
  case (Cons l ls)
  then have len: "length a = length l" by simp
  let ?a' = "map (\<lambda>(x, y). safe_slice_add x y) (zip a l)"
  from Cons.prems len have "\<forall>l' \<in> set ls. length l' = length ?a'" by simp
  from Cons.IH [OF this] len show ?case
    by (simp add: map_structure_safe_slice_add)
qed

lemma local_gradients_sources:
  assumes "source_grads opt cfg var_list (zip loss grad_loss) = Inr (l # ls)"
    and "\<forall>l' \<in> set ls. length l' = length l"
  shows "local_gradients opt cfg var_list loss grad_loss =
           apply_gradients opt
             (zip (foldl (\<lambda>acc l'. map (\<lambda>(x, y). safe_slice_add x y) (zip acc l')) l ls)
                var_list)"
  using assms by (simp add: local_gradients_def accumulate_safe_slice_add)

lemma local_gradients_two_sources:
  assumes "(if \<not> takes_opt_config opt then compute_gradients opt (Some ya) var_list ga None
            else compute_gradients opt (Some ya) var_list ga (Some cfg)) = Inr gva"
    and "(if \<not> takes_opt_config opt then compute_gradients opt (Some yb) var_list gb None
          else compute_gradients opt (Some yb) var_list gb (Some cfg)) = Inr gvb"
    and "length gva = length gvb"
  shows "local_gradients opt cfg var_list [Some ya, Some yb] [ga, gb] =
           apply_gradients opt
             (zip (map (\<lambda>(x, y). safe_slice_add x y) (zip (map fst gva) (map fst gvb)))
                var_list)"
proof -
  from assms(1,2) have "source_grads opt cfg var_list (zip [Some ya, Some yb] [ga, gb]) =
      Inr [map fst gva, map fst gvb]"
    by (simp split: if_splits)
  from local_gradients_sources [OF this] assms(3) show ?thesis by simp
qed

lemma federal_minimize_applies:
  assumes "loss_sources task loss0 opt m = ((ls, gs), m1)"
    and "peer_gradients eng task opt (get_recv_grad_vars eng m task var_scope) ls gs m1
           = (Inr (), m2)"
    and "local_gradients opt (opt_config m2) var_list ls gs = Inr train_op"
  shows "federal_minimize eng task loss0 (var_list, var_scope) opt m
           = (Inr (Some train_op), m2)"
  using assms by (simp add: federal_minimize_def)

text \<open>
  Claim C4. The local function \<open>safe_slice_add\<close> has \<^verbatim>\<open>None\<close> as its identity on both
  sides and adds numerically only two defined gradients. \<open>local_gradients\<close>, the body of
  the \<^verbatim>\<open>try\<close> block, combines with it the gradient lists the optimizer computes for the
  loss sources: for two sources it applies the list whose entry at every position is
  the \<open>safe_slice_add\<close> of the two gradients there, so a gradient that only one source
  defines is taken unchanged; for any number of sources it applies the fold of this
  combination over the lists. \<open>federal_minimize\<close> returns the operation so applied.
\<close>

theorem local_gradients_null_coalescing:
  "safe_slice_add None b = b
   \<and> safe_slice_add a None = a
   \<and> safe_slice_add (Some x) (Some y) = Some (slice_add x y)
   \<and> ((if \<not> takes_opt_config opt then compute_gradients opt (Some ya) var_list ga None
         else compute_gradients opt (Some ya) var_list ga (Some cfg)) = Inr gva
       \<and> (if \<not> takes_opt_config opt then compute_gradients opt (Some yb) var_list gb None
           else compute_gradients opt (Some yb) var_list gb (Some cfg)) = Inr gvb
       \<and> length gva = length gvb \<longrightarrow>
        local_gradients opt cfg var_list [Some ya, Some yb] [ga, gb] =
          apply_gradients opt
            (zip (map (\<lambda>(x, y). safe_slice_add x y) (zip (map fst gva) (map fst gvb)))
               var_list)
        \<and> (\<forall>i < length gva.
              map (\<lambda>(x, y). safe_slice_add x y) (zip (map fst gva) (map fst gvb)) ! i =
                safe_slice_add (fst (gva ! i)) (fst (gvb ! i))
              \<and> (fst (gvb ! i) = None \<longrightarrow>
                   map (\<lambda>(x, y). safe_slice_add x y) (zip (map fst gva) (map fst gvb)) ! i
                     = fst (gva ! i))
              \<and> (fst (gva ! i) = None \<longrightarrow>
                   map (\<lambda>(x, y). safe_slice_add x y) (zip (map fst gva) (map fst gvb)) ! i
                     = fst (gvb ! i))))
   \<and> (source_grads opt cfg var_list (zip loss grad_loss) = Inr (l # ls)
       \<and> (\<forall>l' \<in> set ls. length l' = length l) \<longrightarrow>
        local_gradients opt cfg var_list loss grad_loss =
          apply_gradients opt
            (zip (foldl (\<lambda>acc l'. map (\<lambda>(x, y). safe_slice_add x y) (zip acc l')) l ls)
               var_list))
   \<and> (loss_sources task loss0 opt m = (([Some ya, Some yb], [ga, gb]), m1)
       \<and> peer_gradients eng task opt (get_recv_grad_vars eng m task var_scope)
            [Some ya, Some yb] [ga, gb] m1 = (Inr (), m2)
       \<and> cfg = opt_config m2
       \<and> (if \<not> takes_opt_config opt then compute_gradients opt (Some ya) var_list ga None
           else compute_gradients opt (Some ya) var_list ga (Some cfg)) = Inr gva
       \<and> (if \<not> takes_opt_config opt then compute_gradients opt (Some yb) var_list gb None
           else compute_gradients opt (Some yb) var_list gb (Some cfg)) = Inr gvb
       \<and> length gva = length gvb
       \<and> apply_gradients opt
            (zip (map (\<lambda>(x, y). safe_slice_add x y) (zip (map fst gva) (map fst gvb)))
               var_list) = Inr train_op \<longrightarrow>
        federal_minimize eng task loss0 (var_list, var_scope) opt m
          = (Inr (Some train_op), m2))
   \<and> (length xs = length ys \<longrightarrow>
        accumulate (map_structure (\<lambda>a b. Inr (safe_slice_add a b))) None [xs, ys] =
          Inr (Some (map (\<lambda>(a, b). safe_slice_add a b) (zip xs ys))))"
proof -
  have unit: "safe_slice_add None b = b" "safe_slice_add a None = a"
    "safe_slice_add (Some x) (Some y) = Some (slice_add x y)"
    by (simp_all add: safe_slice_add_def split: option.splits)
  have idl: "safe_slice_add None u = u" and idr: "safe_slice_add u None = u" for u
    by (simp_all add: safe_slice_add_def split: option.splits)
  have two: "(if \<not> takes_opt_config opt then compute_gradients opt (Some ya) var_list ga None
         else compute_gradients opt (Some ya) var_list ga (Some cfg)) = Inr gva
       \<and> (if \<not> takes_opt_config opt then compute_gradients opt (Some yb) var_list gb None
           else compute_gradients opt (Some yb) var_list gb (Some cfg)) = Inr gvb
       \<and> length gva = length gvb \<longrightarrow>
        local_gradients opt cfg var_list [Some ya, Some yb] [ga, gb] =
          apply_gradients opt
            (zip (map (\<lambda>(x, y). safe_slice_add x y) (zip (map fst gva) (map fst gvb)))
               var_list)
        \<and> (\<forall>i < length gva.
              map (\<lambda>(x, y). safe_slice_add x y) (zip (map fst gva) (map fst gvb)) ! i =
                safe_slice_add (fst (gva ! i)) (fst (gvb ! i))
              \<and> (fst (gvb ! i) = None \<longrightarrow>
                   map (\<lambda>(x, y). safe_slice_add x y) (zip (map fst gva) (map fst gvb)) ! i
                     = fst (gva ! i))
              \<and> (fst (gva ! i) = None \<longrightarrow>
                   map (\<lambda>(x, y). safe_slice_add x y) (zip (map fst gva) (map fst gvb)) ! i
                     = fst (gvb ! i)))"
  proof (intro impI, elim conjE)
    assume a: "(if \<not> takes_opt_config opt then compute_gradients opt (Some ya) var_list ga None
         else compute_gradients opt (Some ya) var_list ga (Some cfg)) = Inr gva"
      and b: "(if \<not> takes_opt_config opt then compute_gradients opt (Some yb) var_list gb None
           else compute_gradients opt (Some yb) var_list gb (Some cfg)) = Inr gvb"
      and len: "length gva = length gvb"
    have loc: "local_gradients opt cfg var_list [Some ya, Some yb] [ga, gb] =
          apply_gradients opt
            (zip (map (\<lambda>(x, y). safe_slice_add x y) (zip (map fst gva) (map fst gvb)))
               var_list)"
      by (rule local_gradients_two_sources [OF a b len])
    have pos: "\<forall>i < length gva.
              map (\<lambda>(x, y). safe_slice_add x y) (zip (map fst gva) (map fst gvb)) ! i =
                safe_slice_add (fst (gva ! i)) (fst (gvb ! i))
              \<and> (fst (gvb ! i) = None \<longrightarrow>
                   map (\<lambda>(x, y). safe_slice_add x y) (zip (map fst gva) (map fst gvb)) ! i
                     = fst (gva ! i))
              \<and> (fst (gva ! i) = None \<longrightarrow>
                   map (\<lambda>(x, y). safe_slice_add x y) (zip (map fst gva) (map fst gvb)) ! i
                     = fst (gvb ! i))"
      using len by (simp add: idl idr)
    from loc pos show "local_gradients opt cfg var_list [Some ya, Some yb] [ga, gb] =
          apply_gradients opt
            (zip (map (\<lambda>(x, y). safe_slice_add x y) (zip (map fst gva) (map fst gvb)))
               var_list)
        \<and> (\<forall>i < length gva.
              map (\<lambda>(x, y). safe_slice_add x y) (zip (map fst gva) (map fst gvb)) ! i =
                safe_slice_add (fst (gva ! i)) (fst (gvb ! i))
              \<and> (fst (gvb ! i) = None \<longrightarrow>
                   map (\<lambda>(x, y). safe_slice_add x y) (zip (map fst gva) (map fst gvb)) ! i
                     = fst (gva ! i))
              \<and> (fst (gva ! i) = None \<longrightarrow>
                   map (\<lambda>(x, y). safe_slice_add x y) (zip (map fst gva) (map fst gvb)) ! i
                     = fst (gvb ! i)))"
      by blast
  qed
  have many: "source_grads opt cfg var_list (zip loss grad_loss) = Inr (l # ls)
       \<and> (\<forall>l' \<in> set ls. length l' = length l) \<longrightarrow>
        local_gradients opt cfg var_list loss grad_loss =
          apply_gradients opt
            (zip (foldl (\<lambda>acc l'. map (\<lambda>(x, y). safe_slice_add x y) (zip acc l')) l ls)
               var_list)"
    using local_gradients_sources by blast
  have lists: "length xs = length ys \<longrightarrow>
        accumulate (map_structure (\<lambda>a b. Inr (safe_slice_add a b))) None [xs, ys] =
          Inr (Some (map (\<lambda>(a, b). safe_slice_add a b) (zip xs ys)))"
    by (simp add: map_structure_safe_slice_add)
  have fed: "loss_sources task loss0 opt m = (([Some ya, Some yb], [ga, gb]), m1)
       \<and> peer_gradients eng task opt (get_recv_grad_vars eng m task var_scope)
            [Some ya, Some yb] [ga, gb] m1 = (Inr (), m2)
       \<and> cfg = opt_config m2
       \<and> (if \<not> takes_opt_config opt then compute_gradients opt (Some ya) var_list ga None
           else compute_gradients opt (Some ya) var_list ga (Some cfg)) = Inr gva
       \<and> (if \<not> takes_opt_config opt then compute_gradients opt (Some yb) var_list gb None
           else compute_gradients opt (Some yb) var_list gb (Some cfg)) = Inr gvb
       \<and> length gva = length gvb
       \<and> apply_gradients opt
            (zip (map (\<lambda>(x, y). safe_slice_add x y) (zip (map fst gva) (map fst gvb)))
               var_list) = Inr train_op \<longrightarrow>
        federal_minimize eng task loss0 (var_list, var_scope) opt m
          = (Inr (Some train_op), m2)"
  proof (intro impI, elim conjE)
    assume src: "loss_sources task loss0 opt m = (([Some ya, Some yb], [ga, gb]), m1)"
      and peer: "peer_gradients eng task opt (get_recv_grad_vars eng m task var_scope)
            [Some ya, Some yb] [ga, gb] m1 = (Inr (), m2)"
      and c: "cfg = opt_config m2"
      and a: "(if \<not> takes_opt_config opt then compute_gradients opt (Some ya) var_list ga None
           else compute_gradients opt (Some ya) var_list ga (Some cfg)) = Inr gva"
      and b: "(if \<not> takes_opt_config opt then compute_gradients opt (Some yb) var_list gb None
           else compute_gradients opt (Some yb) var_list gb (Some cfg)) = Inr gvb"
      and len: "length gva = length gvb"
      and app: "apply_gradients opt
            (zip (map (\<lambda>(x, y). safe_slice_add x y) (zip (map fst gva) (map fst gvb)))
               var_list) = Inr train_op"
    from local_gradients_two_sources [OF a b len] app c
    have "local_gradients opt (opt_config m2) var_list [Some ya, Some yb] [ga, gb]
            = Inr train_op"
      by simp
    from federal_minimize_applies [OF src peer this]
    show "federal_minimize eng task loss0 (var_list, var_scope) opt m
            = (Inr (Some train_op), m2)" .
  qed
  from unit two many fed lists show ?thesis by blast
qed

theorem local_gradients_null_coalescing_witness:
  "compute_gradients sgd (Some (ReduceMean local_loss)) [w_top, w_bottom] None None =
     Inr [(Some (Gradient (ReduceMean local_loss) w_top None), w_top),
          (Some (Gradient (ReduceMean local_loss) w_bottom None), w_bottom)]
   \<and> compute_gradients sgd (Some bottom_emb) [w_top, w_bottom]
       (Some (RecvTensor ''emb_grad'' ''float32'')) None =
     Inr [(None, w_top),
          (Some (Gradient bottom_emb w_bottom (Some (RecvTensor ''emb_grad'' ''float32''))),
           w_bottom)]
   \<and> local_gradients sgd Map.empty [w_top, w_bottom]
       [Some (ReduceMean local_loss), Some bottom_emb]
       [None, Some (RecvTensor ''emb_grad'' ''float32'')] =
     Inr (ApplyGradients ''sgd''
            [(Some (Gradient (ReduceMean local_loss) w_top None), w_top),
             (Some (SliceAdd (Gradient (ReduceMean local_loss) w_bottom None)
                      (Gradient bottom_emb w_bottom
                         (Some (RecvTensor ''emb_grad'' ''float32'')))),
              w_bottom)])
   \<and> fst (federal_minimize reference_engine None (Some local_loss)
            ([w_top, w_bottom], ''bottom'') sgd sender) =
     Inr (Some (ApplyGradients ''sgd''
            [(Some (Gradient (ReduceMean local_loss) w_top None), w_top),
             (Some (SliceAdd (Gradient (ReduceMean local_loss) w_bottom None)
                      (Gradient bottom_emb w_bottom
                         (Some (RecvTensor ''emb_grad'' ''float32'')))),
              w_bottom)]))"
proof -
  let ?ga = "[(Some (Gradient (ReduceMean local_loss) w_top None), w_top),
          (Some (Gradient (ReduceMean local_loss) w_bottom None), w_bottom)]"
  let ?gb = "[(None, w_top),
          (Some (Gradient bottom_emb w_bottom (Some (RecvTensor ''emb_grad'' ''float32''))),
           w_bottom)]"
  have nt: "\<not> takes_opt_config sgd" by (simp add: sgd_def reference_optimizer_def)
  have a: "compute_gradients sgd (Some (ReduceMean local_loss)) [w_top, w_bottom] None None
             = Inr ?ga"
    by (simp add: fixture_defs)
  have b: "compute_gradients sgd (Some bottom_emb) [w_top, w_bottom]
             (Some (RecvTensor ''emb_grad'' ''float32'')) None = Inr ?gb"
    by (simp add: fixture_defs bottom_emb_def)
  have len: "length ?ga = length ?gb" by simp
  have app: "apply_gradients sgd
               [(Some (Gradient (ReduceMean local_loss) w_top None), w_top),
                (Some (SliceAdd (Gradient (ReduceMean local_loss) w_bottom None)
                         (Gradient bottom_emb w_bottom
                            (Some (RecvTensor ''emb_grad'' ''float32'')))),
                 w_bottom)] =
             Inr (ApplyGradients ''sgd''
               [(Some (Gradient (ReduceMean local_loss) w_top None), w_top),
                (Some (SliceAdd (Gradient (ReduceMean local_loss) w_bottom None)
                         (Gradient bottom_emb w_bottom
                            (Some (RecvTensor ''emb_grad'' ''float32'')))),
                 w_bottom)])"
    by (simp add: sgd_def reference_optimizer_def)
  have src: "source_grads sgd Map.empty [w_top, w_bottom]
               (zip [Some (ReduceMean local_loss), Some bottom_emb]
                    [None, Some (RecvTensor ''emb_grad'' ''float32'')]) =
             Inr (map fst ?ga # [map fst ?gb])"
    using a b nt by simp
  have all: "\<forall>l' \<in> set [map fst ?gb]. length l' = length (map fst ?ga)" by simp
  note th = local_gradients_null_coalescing
    [where opt = sgd and cfg = Map.empty and var_list = "[w_top, w_bottom]"
       and ya = "ReduceMean local_loss" and ga = None and gva = ?ga
       and yb = bottom_emb and gb = "Some (RecvTensor ''emb_grad'' ''float32'')" and gvb = ?gb
       and loss = "[Some (ReduceMean local_loss), Some bottom_emb]"
       and grad_loss = "[None, Some (RecvTensor ''emb_grad'' ''float32'')]"
       and l = "map fst ?ga" and ls = "[map fst ?gb]"
       and xs = "map fst ?ga" and ys = "map fst ?gb"
       and a = "Some (Gradient (ReduceMean local_loss) w_top None)" and b = None
       and x = "Gradient (ReduceMean local_loss) w_bottom None"
       and y = "Gradient bottom_emb w_bottom (Some (RecvTensor ''emb_grad'' ''float32''))"
       and task = None and ?loss0.0 = "Some local_loss" and m = sender and ?m1.0 = sender
       and ?m2.0 = sender and eng = reference_engine and var_scope = "''bottom''"
       and train_op = "UserOp ''none''"]
  from th a b nt len have loc: "local_gradients sgd Map.empty [w_top, w_bottom]
       [Some (ReduceMean local_loss), Some bottom_emb]
       [None, Some (RecvTensor ''emb_grad'' ''float32'')] =
     apply_gradients sgd
       (zip (map (\<lambda>(x, y). safe_slice_add x y) (zip (map fst ?ga) (map fst ?gb)))
          [w_top, w_bottom])"
    by simp
  from th have u: "safe_slice_add (Some (Gradient (ReduceMean local_loss) w_top None)) None
             = Some (Gradient (ReduceMean local_loss) w_top None)"
    "safe_slice_add (Some (Gradient (ReduceMean local_loss) w_bottom None))
       (Some (Gradient bottom_emb w_bottom (Some (RecvTensor ''emb_grad'' ''float32''))))
     = Some (slice_add (Gradient (ReduceMean local_loss) w_bottom None)
               (Gradient bottom_emb w_bottom (Some (RecvTensor ''emb_grad'' ''float32''))))"
    by blast+
  from loc u app have loc': "local_gradients sgd Map.empty [w_top, w_bottom]
       [Some (ReduceMean local_loss), Some bottom_emb]
       [None, Some (RecvTensor ''emb_grad'' ''float32'')] =
     Inr (ApplyGradients ''sgd''
            [(Some (Gradient (ReduceMean local_loss) w_top None), w_top),
             (Some (SliceAdd (Gradient (ReduceMean local_loss) w_bottom None)
                      (Gradient bottom_emb w_bottom
                         (Some (RecvTensor ''emb_grad'' ''float32'')))),
              w_bottom)])"
    by (simp add: slice_add_def)
  let ?m1 = "sender\<lparr>opt_config := (opt_config sender)(''REDUCE'' := None)\<rparr>"
  have h1: "loss_sources None (Some local_loss) sgd sender =
              (([Some (ReduceMean local_loss), Some bottom_emb],
                [None, Some (RecvTensor ''emb_grad'' ''float32'')]), ?m1)"
    by (simp add: loss_sources_def sender_def bottom_emb_def fixture_defs)
  have h2: "peer_gradients reference_engine None sgd
              (get_recv_grad_vars reference_engine sender None ''bottom'')
              [Some (ReduceMean local_loss), Some bottom_emb]
              [None, Some (RecvTensor ''emb_grad'' ''float32'')] ?m1 = (Inr (), ?m1)"
    by (simp add: peer_gradients_def sender_def fixture_defs)
  have app': "apply_gradients sgd
       (zip (map (\<lambda>(x, y). safe_slice_add x y) (zip (map fst ?ga) (map fst ?gb)))
          [w_top, w_bottom]) =
     Inr (ApplyGradients ''sgd''
            [(Some (Gradient (ReduceMean local_loss) w_top None), w_top),
             (Some (SliceAdd (Gradient (ReduceMean local_loss) w_bottom None)
                      (Gradient bottom_emb w_bottom
                         (Some (RecvTensor ''emb_grad'' ''float32'')))),
              w_bottom)])"
    using loc loc' by simp
  note th2 = local_gradients_null_coalescing
    [where opt = sgd and cfg = "opt_config ?m1" and var_list = "[w_top, w_bottom]"
       and ya = "ReduceMean local_loss" and ga = None and gva = ?ga
       and yb = bottom_emb and gb = "Some (RecvTensor ''emb_grad'' ''float32'')" and gvb = ?gb
       and task = None and ?loss0.0 = "Some local_loss" and m = sender and ?m1.0 = ?m1
       and ?m2.0 = ?m1 and eng = reference_engine and var_scope = "''bottom''"
       and loss = "[]" and grad_loss = "[]" and l = "[]" and ls = "[]" and xs = "[]"
       and ys = "[]" and a = None and b = None and x = w_top and y = w_top
       and train_op = "ApplyGradients ''sgd''
            [(Some (Gradient (ReduceMean local_loss) w_top None), w_top),
             (Some (SliceAdd (Gradient (ReduceMean local_loss) w_bottom None)
                      (Gradient bottom_emb w_bottom
                         (Some (RecvTensor ''emb_grad'' ''float32'')))),
              w_bottom)]"]
  from th2 h1 h2 a b nt len app'
  have "federal_minimize reference_engine None (Some local_loss)
          ([w_top, w_bottom], ''bottom'') sgd sender =
        (Inr (Some (ApplyGradients ''sgd''
            [(Some (Gradient (ReduceMean local_loss) w_top None), w_top),
             (Some (SliceAdd (Gradient (ReduceMean local_loss) w_bottom None)
                      (Gradient bottom_emb w_bottom
                         (Some (RecvTensor ''emb_grad'' ''float32'')))),
              w_bottom)])), ?m1)"
    by simp
  then have fed: "fst (federal_minimize reference_engine None (Some local_loss)
            ([w_top, w_bottom], ''bottom'') sgd sender) =
     Inr (Some (ApplyGradients ''sgd''
            [(Some (Gradient (ReduceMean local_loss) w_top None), w_top),
             (Some (SliceAdd (Gradient (ReduceMean local_loss) w_bottom None)
                      (Gradient bottom_emb w_bottom
                         (Some (RecvTensor ''emb_grad'' ''float32'')))),
              w_bottom)]))"
    by simp
  from a b loc' fed show ?thesis by blast
qed

end
